theory Spec2Isabelle
  imports Complex_Main "HOL-Library.AList"
begin

section \<open>Numbers\<close>

text \<open>
  A JavaScript number is an IEEE 754 double. It is modelled by the real number it
  denotes, and every arithmetic operation of Typography.js is the exact operation
  followed by \<open>double\<close>, the rounding to the nearest number with a significand of 53
  bits, a tie going to the even significand. Below the exponent -1022 the spacing of
  the numbers stays that of the exponent -1022 (the subnormal numbers). A
  \<open>Float32Array\<close> holds single-precision numbers, with 24 bits and the least exponent
  -126; storing a number in it rounds the number by \<open>single\<close>. What is not modelled:
  magnitudes of \<open>2 ^ 1024\<close> and above, which a double rounds to Infinity, and the sign
  of zero. The values NaN and Infinity exist only where a division by zero produces
  them, which is written out where it happens.
\<close>

definition round_half_even :: "real \<Rightarrow> int" where
  "round_half_even x =
     (let f = \<lfloor>x\<rfloor>; r = x - of_int f
      in if r < 1 / 2 then f else if 1 / 2 < r then f + 1 else if even f then f else f + 1)"

text \<open>
  Rounding to \<open>p\<close> significant bits with least exponent \<open>emin\<close>: the number is a
  multiple of \<open>u\<close>, the unit in the last place at the exponent of \<open>x\<close>.
\<close>

definition float_round :: "int \<Rightarrow> int \<Rightarrow> real \<Rightarrow> real" where
  "float_round p emin x =
     (if x = 0 then 0
      else (let e = max \<lfloor>log 2 \<bar>x\<bar>\<rfloor> emin;
                u = 2 powr of_int (e - p + 1)
            in of_int (round_half_even (x / u)) * u))"

definition double :: "real \<Rightarrow> real" where
  "double x = float_round 53 (- 1022) x"

definition single :: "real \<Rightarrow> real" where
  "single x = float_round 24 (- 126) x"

section \<open>Typography (src/dist/files/Typography.js)\<close>

text \<open>
  A JavaScript string is a \<open>string\<close>, one \<open>char\<close> per UTF-16 code unit, so \<open>str.length\<close>
  is \<open>length str\<close>. An optional parameter is an \<open>option\<close>: \<open>None\<close> is the omitted
  (undefined) argument, which selects the default. A static method \<open>C.m\<close> is the
  constant \<open>C_m\<close>, a method \<open>m\<close> of an SVGForm instance is \<open>form_m\<close>.
\<close>

text \<open>
  Modelled from the spec: \<open>Pt\<close> and \<open>Pt.dot\<close> (Pt.js is not among the sources). The spec
  says that the estimator "computes the dot product of distribution and measured
  widths"; the two lists are required to have equal length, which the spec calls
  unchecked. A \<open>Pt\<close> of the library is a \<open>Float32Array\<close>, so \<open>new Pt(distribution)\<close> holds
  every entry rounded to single precision. The dot product adds the products to an
  accumulator that starts at 0, in the order of the entries; each product and each sum
  is a double.
\<close>

definition Pt :: "real list \<Rightarrow> real list" where
  "Pt xs = map single xs"

definition dot :: "real list \<Rightarrow> real list \<Rightarrow> real" where
  "dot a b = foldl (\<lambda>d (x, y). double (d + double (x * y))) 0 (zip a b)"

definition default_samples :: "string list" where
  "default_samples = [''M'', ''n'', ''.'']"

text \<open>The literals \<open>0.06\<close>, \<open>0.8\<close> and \<open>0.14\<close> denote the doubles nearest to them.\<close>

definition default_distribution :: "real list" where
  "default_distribution = [double 0.06, double 0.8, double 0.14]"

text \<open>
  \<^verbatim>\<open>static textWidthEstimator(fn, samples = ["M", "n", "."], distribution = [0.06, 0.8, 0.14]) {
      let m = samples.map(fn);
      let avg = new Pt(distribution).dot(m);
      return (str) => str.length * avg;
  }\<close>
  \<open>estimator_avg\<close> is the value of the local variable \<open>avg\<close>, which the returned
  function captures.
\<close>

definition estimator_avg :: "(string \<Rightarrow> real) \<Rightarrow> string list option \<Rightarrow> real list option \<Rightarrow> real" where
  "estimator_avg fn samples distribution =
     (let m = map fn (case samples of None \<Rightarrow> default_samples | Some s \<Rightarrow> s)
      in dot (Pt (case distribution of None \<Rightarrow> default_distribution | Some d \<Rightarrow> d)) m)"

definition Typography_textWidthEstimator ::
  "(string \<Rightarrow> real) \<Rightarrow> string list option \<Rightarrow> real list option \<Rightarrow> string \<Rightarrow> real" where
  "Typography_textWidthEstimator fn samples distribution =
     (let avg = estimator_avg fn samples distribution
      in (\<lambda>str. double (real (length str) * avg)))"

text \<open>
  The value that the specification gives for the estimator with the default samples
  and distribution, \<open>S.length * (0.06*M("M") + 0.8*M("n") + 0.14*M("."))\<close>, as
  JavaScript evaluates that expression.
\<close>

definition specified_estimate :: "(string \<Rightarrow> real) \<Rightarrow> string \<Rightarrow> real" where
  "specified_estimate M S =
     double (real (length S)
       * double (double (double (double 0.06 * M ''M'') + double (double 0.8 * M ''n''))
                 + double (double 0.14 * M ''.'')))"

text \<open>
  \<^verbatim>\<open>static truncate(fn, str, width, tail = "") {
      let trim = Math.floor(str.length * Math.min(1, width / fn(str)));
      if (trim < str.length) {
          trim = Math.max(0, trim - tail.length);
          return [str.substr(0, trim) + tail, trim];
      }
      else {
          return [str, str.length];
      }
  }\<close>
  Where \<open>fn(str)\<close> is (positive) zero the quotient is not a real number, and the branch
  is written out: a positive width gives Infinity, so \<open>Math.min\<close> gives 1 and nothing is
  trimmed; a zero width gives NaN, which fails the comparison \<open>trim < str.length\<close>; a
  negative width gives -Infinity, which is below every length unless the text is empty
  (then the product is NaN), and \<open>Math.max(0, -Infinity)\<close> is 0.

  \<open>Typography_truncate\<close> takes the quotient and the product exactly. It serves where
  the rounding of the two cannot change the outcome: where the text fits the width.
  \<open>Typography_truncate_double\<close> rounds the quotient and the product to doubles, as the
  code does; the two can differ by one character where the text is trimmed.
\<close>

definition Typography_truncate :: "(string \<Rightarrow> real) \<Rightarrow> string \<Rightarrow> real \<Rightarrow> string option \<Rightarrow> string \<times> int" where
  "Typography_truncate fn str width tail_arg =
     (let tail = (case tail_arg of None \<Rightarrow> [] | Some t \<Rightarrow> t);
          len = int (length str)
      in if fn str = 0
         then (if width < 0 \<and> 0 < len then (take 0 str @ tail, 0) else (str, len))
         else
           (let trim = \<lfloor>of_int len * min 1 (width / fn str)\<rfloor>
            in if trim < len
               then (let trim' = max 0 (trim - int (length tail))
                     in (take (nat trim') str @ tail, trim'))
               else (str, len)))"

definition Typography_truncate_double ::
  "(string \<Rightarrow> real) \<Rightarrow> string \<Rightarrow> real \<Rightarrow> string option \<Rightarrow> string \<times> int" where
  "Typography_truncate_double fn str width tail_arg =
     (let tail = (case tail_arg of None \<Rightarrow> [] | Some t \<Rightarrow> t);
          len = int (length str)
      in if fn str = 0
         then (if width < 0 \<and> 0 < len then (take 0 str @ tail, 0) else (str, len))
         else
           (let trim = \<lfloor>double (of_int len * min 1 (double (width / fn str)))\<rfloor>
            in if trim < len
               then (let trim' = max 0 (trim - int (length tail))
                     in (take (nat trim') str @ tail, trim'))
               else (str, len)))"

text \<open>
  A sample measure function for the concrete instances below: every character is
  \<open>w\<close> units wide.
\<close>

definition monospace :: "real \<Rightarrow> string \<Rightarrow> real" where
  "monospace w s = w * real (length s)"

section \<open>JavaScript values, objects and errors\<close>

text \<open>
  The values the modelled code stores and passes: \<open>undefined\<close>, \<open>null\<close>, booleans,
  numbers (the real number that the double denotes, with NaN as a value of its own),
  and strings.
\<close>

datatype jsval = Undefined | Null | Bool bool | Num real | NaN | Str string

text \<open>The truthiness that \<open>if (v)\<close>, \<open>!v\<close> and \<open>a || b\<close> test.\<close>

fun truthy :: "jsval \<Rightarrow> bool" where
  "truthy Undefined = False"
| "truthy Null = False"
| "truthy (Bool b) = b"
| "truthy (Num r) = (r \<noteq> 0)"
| "truthy NaN = False"
| "truthy (Str s) = (s \<noteq> [])"

text \<open>
  The string a template literal or \<open>setAttribute\<close> makes of a value. The decimal form
  of a number is the parameter \<open>ns\<close> (ECMAScript's Number::toString).
\<close>

fun to_string :: "(real \<Rightarrow> string) \<Rightarrow> jsval \<Rightarrow> string" where
  "to_string ns Undefined = ''undefined''"
| "to_string ns Null = ''null''"
| "to_string ns (Bool b) = (if b then ''true'' else ''false'')"
| "to_string ns (Num r) = ns r"
| "to_string ns NaN = ''NaN''"
| "to_string ns (Str s) = s"

text \<open>A counter printed in a template literal: the decimal digits of a natural number.\<close>

definition digit :: "nat \<Rightarrow> char" where
  "digit d = ''0123456789'' ! d"

fun show_nat :: "nat \<Rightarrow> string" where
  "show_nat n = (if n < 10 then [digit n] else show_nat (n div 10) @ [digit (n mod 10)])"

declare show_nat.simps [simp del]

text \<open>
  An object created by an object literal: its own properties in insertion order, and
  \<open>Object.prototype\<close> behind them. Reading \<open>obj[k]\<close> finds an own property first and
  an inherited member (a function, or the prototype itself for \<open>__proto__\<close>) otherwise;
  only a key that is neither reads as \<open>undefined\<close>.
\<close>

type_synonym jsobj = "(string \<times> jsval) list"

definition object_prototype :: "string list" where
  "object_prototype =
     [''constructor'', ''hasOwnProperty'', ''isPrototypeOf'', ''propertyIsEnumerable'',
      ''toLocaleString'', ''toString'', ''valueOf'', ''__defineGetter__'',
      ''__defineSetter__'', ''__lookupGetter__'', ''__lookupSetter__'', ''__proto__'']"

text \<open>\<open>obj[k] === undefined\<close>\<close>

definition is_undefined :: "jsobj \<Rightarrow> string \<Rightarrow> bool" where
  "is_undefined obj k =
     (case map_of obj k of
        Some v \<Rightarrow> (case v of Undefined \<Rightarrow> True | _ \<Rightarrow> False)
      | None \<Rightarrow> k \<notin> set object_prototype)"

text \<open>The truthiness of \<open>obj[k]\<close>; an inherited member is an object, hence truthy.\<close>

definition member_truthy :: "jsobj \<Rightarrow> string \<Rightarrow> bool" where
  "member_truthy obj k =
     (case map_of obj k of Some v \<Rightarrow> truthy v | None \<Rightarrow> k \<in> set object_prototype)"

text \<open>
  \<open>obj[k] = v\<close> for a primitive \<open>v\<close>: an own property keeps its place, a new one is added
  last (also over an inherited member, which is writable). The key \<open>__proto__\<close> is the
  accessor of \<open>Object.prototype\<close>, whose setter ignores a primitive.
\<close>

definition assign :: "jsobj \<Rightarrow> string \<Rightarrow> jsval \<Rightarrow> jsobj" where
  "assign obj k v = (if k = ''__proto__'' then obj else AList.update k v obj)"

datatype error = Error string | TypeError

text \<open>\<open>Array.prototype.join\<close> on strings.\<close>

fun join :: "string \<Rightarrow> string list \<Rightarrow> string" where
  "join sep [] = []"
| "join sep [x] = x"
| "join sep (x # y # ys) = x @ sep @ join sep (y # ys)"

text \<open>
  \<open>p[i]\<close> on a numeric array (a Pt or a \<open>number[]\<close>): \<open>undefined\<close> out of range.
\<close>

definition coord :: "real list \<Rightarrow> nat \<Rightarrow> jsval" where
  "coord p i = (if i < length p then Num (p ! i) else Undefined)"

text \<open>
  \<open>a - h\<close> for a number \<open>h\<close>: the difference rounded to a double, and NaN unless \<open>a\<close> is
  a number (here: when it is undefined).
\<close>

fun js_minus :: "jsval \<Rightarrow> real \<Rightarrow> jsval" where
  "js_minus (Num a) h = Num (double (a - h))"
| "js_minus v h = NaN"


section \<open>The document (the DOM as the code uses it)\<close>

text \<open>
  The document is the list of its elements in document order; a reference to an element
  is its index. An element has a tag name, attributes (each stored as a string, in the
  order they were first set), a parent and a text content. Elements that are not
  attached to the document are not modelled: the group of a context is an element of
  the document or no node.
\<close>

record element =
  tagName :: string
  attributes :: "(string \<times> string) list"
  parentNode :: nat
  textContent :: string

fun first_index :: "('a \<Rightarrow> bool) \<Rightarrow> 'a list \<Rightarrow> nat option" where
  "first_index P [] = None"
| "first_index P (x # xs) = (if P x then Some 0 else map_option Suc (first_index P xs))"

text \<open>
  The code looks an element up by \<open>document.querySelector\<close> with the selector made of
  \<open>#\<close> and the id. Where the id is a CSS identifier, this selector finds the first
  element whose \<open>id\<close> attribute is the id, which is \<open>querySelector_id\<close>. For another id
  the selector has another meaning (\<open>#a.b\<close> asks for the id \<open>a\<close> and the class \<open>b\<close>) or
  is no selector at all (\<open>#1a\<close>, for which \<open>querySelector\<close> throws a SyntaxError), and
  \<open>querySelector_id\<close> does not say what the code does: what is proved below of a
  lookup has the hypothesis \<open>css_identifier\<close>. The predicate accepts the identifiers
  written without escapes in ASCII: letters, digits, \<open>_\<close> and \<open>-\<close>, starting with a
  letter or \<open>_\<close>, or with \<open>-\<close> and then a letter or \<open>_\<close>.
\<close>

definition querySelector_id :: "element list \<Rightarrow> string \<Rightarrow> nat option" where
  "querySelector_id d i = first_index (\<lambda>e. map_of (attributes e) ''id'' = Some i) d"

definition name_start :: "char \<Rightarrow> bool" where
  "name_start c = (c \<in> set ''abcdefghijklmnopqrstuvwxyzABCDEFGHIJKLMNOPQRSTUVWXYZ_'')"

definition name_char :: "char \<Rightarrow> bool" where
  "name_char c = (name_start c \<or> c \<in> set ''0123456789-'')"

fun css_identifier :: "string \<Rightarrow> bool" where
  "css_identifier [] = False"
| "css_identifier [c] = name_start c"
| "css_identifier (c # c' # cs) =
     ((name_start c \<or> (c = CHR ''-'' \<and> name_start c')) \<and> list_all name_char (c' # cs))"

definition setAttribute :: "nat \<Rightarrow> string \<Rightarrow> string \<Rightarrow> element list \<Rightarrow> element list" where
  "setAttribute el k v d = d[el := (d ! el)\<lparr>attributes := AList.update k v (attributes (d ! el))\<rparr>]"

text \<open>
  Modelled from the spec: \<open>DOMSpace.setAttr\<close> (Dom.js is not among the sources), the
  "attribute-setting collaborator: a function \<open>setAttributes(element, mapping)\<close>". It
  sets every entry of the mapping as an attribute of the element, in the mapping's order.
\<close>

definition setAttr ::
  "(real \<Rightarrow> string) \<Rightarrow> nat \<Rightarrow> (string \<times> jsval) list \<Rightarrow> element list \<Rightarrow> element list" where
  "setAttr ns el data d = fold (\<lambda>(k, v). setAttribute el k (to_string ns v)) data d"

text \<open>
  \<^verbatim>\<open>static svgElement(parent, name, id) {
      if (!parent || !parent.appendChild)
          throw new Error("parent is not a valid DOM element");
      let elem = document.querySelector(`#${id}`);
      if (!elem) {
          elem = document.createElementNS("http://www.w3.org/2000/svg", name);
          elem.setAttribute("id", id);
          parent.appendChild(elem);
      }
      return elem;
  }\<close>
  The parent is \<open>None\<close> when it is \<open>null\<close>, \<open>undefined\<close> or not a node.
\<close>

definition svgElement ::
  "nat option \<Rightarrow> string \<Rightarrow> string \<Rightarrow> element list \<Rightarrow> (error + nat) \<times> element list" where
  "svgElement parent name i d =
     (case parent of
        None \<Rightarrow> (Inl (Error ''parent is not a valid DOM element''), d)
      | Some p \<Rightarrow>
          (case querySelector_id d i of
             Some elem \<Rightarrow> (Inr elem, d)
           | None \<Rightarrow>
               (Inr (length d),
                d @ [\<lparr>tagName = name, attributes = [(''id'', i)], parentNode = p,
                      textContent = []\<rparr>])))"


section \<open>SVGForm (Svg.js): the context and the state\<close>

text \<open>
  The code's collaborators that are not among the sources are parameters of the model,
  collected in one record: the decimal form of a number, \<open>Geom.boundAngle\<close> (Num.js),
  \<open>new Pt(pt).toAngle(angle, radius, true)\<close> (Pt.js),
  \<open>Group.fromArray(pts).boundingBox()\<close> as its two corners, \<open>Rectangle.size\<close> (Op.js) and
  the getter \<open>Font.value\<close> (Form.js). \<open>Const.pi\<close> (Util.js) is \<open>pi\<close>.
\<close>

record font =
  font_size :: real
  font_face :: string

record collaborators =
  numToString :: "real \<Rightarrow> string"
  boundAngle :: "real \<Rightarrow> real"
  toAngle :: "real list \<Rightarrow> real \<Rightarrow> real \<Rightarrow> real list"
  boundingBox :: "real list list \<Rightarrow> real list \<times> real list"
  rectangleSize :: "real list \<times> real list \<Rightarrow> real list"
  fontValue :: "font \<Rightarrow> string"

text \<open>
  Modelled from the spec: \<open>VisualForm._checkSize\<close> (Form.js is not among the sources).
  The spec: "line/poly operations silently no-op if input has fewer than 2 points".
\<close>

definition checkSize :: "real list list \<Rightarrow> bool" where
  "checkSize pts = (2 \<le> length pts)"

text \<open>
  \<open>this._ctx\<close>. The group is a reference to an element of the document, or \<open>None\<close> for
  \<open>null\<close>; \<open>groupCount\<close> only ever counts up from 0 in steps of one.
\<close>

record form_ctx =
  group :: "nat option"
  groupID :: string
  groupCount :: nat
  currentID :: string
  currentClass :: string
  style :: jsobj
  font :: string
  fontSize :: real
  fontFamily :: string

text \<open>
  What the static methods change: the document and the class's static counters
  \<open>SVGForm.domID\<close> and \<open>SVGForm.groupID\<close>.
\<close>

record world =
  document :: "element list"
  static_domID :: nat
  static_groupID :: nat

text \<open>
  A form with the world it draws into: \<open>this._ctx\<close>, \<open>this._font\<close>, and the world. A
  method that returns \<open>this\<close> is modelled by its effect: the error it throws, if any,
  and the state it leaves (what was mutated before a throw stays mutated).
\<close>

record form_state =
  ctx :: form_ctx
  form_font :: font
  world :: world

type_synonym form_method = "form_state \<Rightarrow> error option \<times> form_state"

text \<open>\<open>a.f(...).g(...)\<close> for methods that return \<open>this\<close>: \<open>g\<close> runs unless \<open>f\<close> throws.\<close>

definition and_then :: "form_method \<Rightarrow> form_method \<Rightarrow> form_method" where
  "and_then f g s = (case f s of (None, s') \<Rightarrow> g s' | (Some e, s') \<Rightarrow> (Some e, s'))"

definition skip :: form_method where
  "skip s = (None, s)"

text \<open>
  The style object of the constructor (lines 112-120) and of \<open>reset\<close> (lines 231-237):
  the same literal in both places.
\<close>

definition style_literal :: jsobj where
  "style_literal =
     [(''filled'', Bool True), (''stroked'', Bool True),
      (''fill'', Str ''#f03''), (''stroke'', Str ''#fff''),
      (''stroke-width'', Num 1),
      (''stroke-linejoin'', Str ''bevel''),
      (''stroke-linecap'', Str ''sqaure'')]"

text \<open>
  The constructor (lines 104-132), for a font \<open>f\<close> that the base class sets, and the
  \<open>start\<close> callback it registers, which the space runs with its element \<open>svg\<close>.
\<close>

definition SVGForm_new :: "font \<Rightarrow> world \<Rightarrow> form_state" where
  "SVGForm_new f w =
     \<lparr>ctx = \<lparr>group = None, groupID = ''pts'', groupCount = 0, currentID = ''pts0'',
              currentClass = [], style = style_literal, font = ''11px sans-serif'',
              fontSize = 11, fontFamily = ''sans-serif''\<rparr>,
      form_font = f, world = w\<rparr>"

definition form_start :: "nat \<Rightarrow> form_state \<Rightarrow> form_state" where
  "form_start svg s =
     s\<lparr>ctx := (ctx s)\<lparr>group := Some svg,
                       groupID := ''pts_svg_'' @ show_nat (static_groupID (world s))\<rparr>,
       world := (world s)\<lparr>static_groupID := static_groupID (world s) + 1\<rparr>\<rparr>"


section \<open>SVGForm: style and identifiers\<close>

text \<open>
  \<^verbatim>\<open>styleTo(k, v) {
      if (this._ctx.style[k] === undefined)
          throw new Error(`${k} style property doesn't exist`);
      this._ctx.style[k] = v;
  }\<close>
\<close>

definition form_styleTo :: "string \<Rightarrow> jsval \<Rightarrow> form_method" where
  "form_styleTo k v s =
     (if is_undefined (style (ctx s)) k
      then (Some (Error (k @ '' style property doesn't exist'')), s)
      else (None, s\<lparr>ctx := (ctx s)\<lparr>style := assign (style (ctx s)) k v\<rparr>\<rparr>))"

text \<open>
  \<^verbatim>\<open>fill(c) {
      if (typeof c == "boolean") { this.styleTo("filled", c); }
      else { this.styleTo("filled", true); this.styleTo("fill", c); }
      return this;
  }\<close>
\<close>

definition form_fill :: "jsval \<Rightarrow> form_method" where
  "form_fill c =
     (case c of
        Bool b \<Rightarrow> form_styleTo ''filled'' c
      | _ \<Rightarrow> and_then (form_styleTo ''filled'' (Bool True)) (form_styleTo ''fill'' c))"

text \<open>
  \<^verbatim>\<open>stroke(c, width, linejoin, linecap) {
      if (typeof c == "boolean") { this.styleTo("stroked", c); }
      else {
          this.styleTo("stroked", true);
          this.styleTo("stroke", c);
          if (width) this.styleTo("stroke-width", width);
          if (linejoin) this.styleTo("stroke-linejoin", linejoin);
          if (linecap) this.styleTo("stroke-linecap", linecap);
      }
      return this;
  }\<close>
  An argument that is left out is \<open>Undefined\<close>.
\<close>

definition form_stroke :: "jsval \<Rightarrow> jsval \<Rightarrow> jsval \<Rightarrow> jsval \<Rightarrow> form_method" where
  "form_stroke c width linejoin linecap =
     (case c of
        Bool b \<Rightarrow> form_styleTo ''stroked'' c
      | _ \<Rightarrow>
          and_then (form_styleTo ''stroked'' (Bool True))
         (and_then (form_styleTo ''stroke'' c)
         (and_then (if truthy width then form_styleTo ''stroke-width'' width else skip)
         (and_then (if truthy linejoin then form_styleTo ''stroke-linejoin'' linejoin else skip)
                   (if truthy linecap then form_styleTo ''stroke-linecap'' linecap else skip)))))"

text \<open>
  \<^verbatim>\<open>reset() {
      this._ctx.style = {
          "filled": true, "stroked": true,
          "fill": "#f03", "stroke": "#fff",
          "stroke-width": 1,
          "stroke-linejoin": "bevel",
          "stroke-linecap": "sqaure"
      };
      this._font = new Font(14, "sans-serif");
      this._ctx.font = this._font.value;
      return this;
  }\<close>
  Of the Font only the two constructor arguments are modelled; its other fields take
  the defaults of the Font class.
\<close>

definition form_reset :: "collaborators \<Rightarrow> form_method" where
  "form_reset K s =
     (let f = \<lparr>font_size = 14, font_face = ''sans-serif''\<rparr>
      in (None, s\<lparr>ctx := (ctx s)\<lparr>style := style_literal, font := fontValue K f\<rparr>,
                  form_font := f\<rparr>))"

text \<open>
  \<^verbatim>\<open>nextID() {
      this._ctx.groupCount++;
      this._ctx.currentID = `${this._ctx.groupID}-${this._ctx.groupCount}`;
      return this._ctx.currentID;
  }\<close>
\<close>

definition form_nextID :: "form_state \<Rightarrow> string \<times> form_state" where
  "form_nextID s =
     (let n = groupCount (ctx s) + 1;
          i = groupID (ctx s) @ ''-'' @ show_nat n
      in (i, s\<lparr>ctx := (ctx s)\<lparr>groupCount := n, currentID := i\<rparr>\<rparr>))"

text \<open>
  \<^verbatim>\<open>updateScope(group_id, group) {
      this._ctx.group = group;
      this._ctx.groupID = group_id;
      this._ctx.groupCount = 0;
      this.nextID();
      return this._ctx;
  }\<close>
  The context it returns is the context of the state it leaves.
\<close>

definition form_updateScope :: "string \<Rightarrow> nat option \<Rightarrow> form_state \<Rightarrow> form_state" where
  "form_updateScope group_id grp s =
     snd (form_nextID (s\<lparr>ctx := (ctx s)\<lparr>group := grp, groupID := group_id, groupCount := 0\<rparr>\<rparr>))"

text \<open>
  \<^verbatim>\<open>static getID(ctx) {
      return ctx.currentID || `p-${SVGForm.domID++}`;
  }\<close>
\<close>

definition SVGForm_getID :: "form_ctx \<Rightarrow> world \<Rightarrow> string \<times> world" where
  "SVGForm_getID c w =
     (if currentID c \<noteq> [] then (currentID c, w)
      else (''p-'' @ show_nat (static_domID w), w\<lparr>static_domID := static_domID w + 1\<rparr>))"

text \<open>
  \<^verbatim>\<open>static style(elem, styles) {
      let st = [];
      if (!styles["filled"]) st.push("fill: none");
      if (!styles["stroked"]) st.push("stroke: none");
      for (let k in styles) {
          if (styles.hasOwnProperty(k) && k != "filled" && k != "stroked") {
              let v = styles[k];
              if (v) {
                  if (!styles["filled"] && k.indexOf('fill') === 0) { continue; }
                  else if (!styles["stroked"] && k.indexOf('stroke') === 0) { continue; }
                  else { st.push(`${k}: ${v}`); }
              }
          }
      }
      return DOMSpace.setAttr(elem, { style: st.join(";") });
  }\<close>
  The loop visits the own properties in insertion order (no key is an array index).
  Where the object has an own property \<open>hasOwnProperty\<close>, a primitive, the call
  \<open>styles.hasOwnProperty(k)\<close> of the first round throws a TypeError.
\<close>

definition style_entry :: "(real \<Rightarrow> string) \<Rightarrow> jsobj \<Rightarrow> string \<times> jsval \<Rightarrow> string list" where
  "style_entry ns styles kv =
     (let k = fst kv; v = snd kv
      in if k \<noteq> ''filled'' \<and> k \<noteq> ''stroked''
         then (if truthy v
               then (if \<not> member_truthy styles ''filled'' \<and> take 4 k = ''fill'' then []
                     else if \<not> member_truthy styles ''stroked'' \<and> take 6 k = ''stroke'' then []
                     else [k @ '': '' @ to_string ns v])
               else [])
         else [])"

definition style_list :: "(real \<Rightarrow> string) \<Rightarrow> jsobj \<Rightarrow> string list" where
  "style_list ns styles =
     (if \<not> member_truthy styles ''filled'' then [''fill: none''] else [])
     @ (if \<not> member_truthy styles ''stroked'' then [''stroke: none''] else [])
     @ concat (map (style_entry ns styles) styles)"

definition SVGForm_style :: "collaborators \<Rightarrow> nat \<Rightarrow> jsobj \<Rightarrow> world \<Rightarrow> (error + nat) \<times> world" where
  "SVGForm_style K elem styles w =
     (case map_of styles ''hasOwnProperty'' of
        Some v \<Rightarrow> (Inl TypeError, w)
      | None \<Rightarrow>
          (Inr elem,
           w\<lparr>document :=
               setAttr (numToString K) elem
                 [(''style'', Str (join '';'' (style_list (numToString K) styles)))]
                 (document w)\<rparr>))"

section \<open>SVGForm: the static drawing functions\<close>

text \<open>
  Every static drawing function begins with
  \<open>SVGSpace.svgElement(ctx.group, name, SVGForm.getID(ctx))\<close>: the argument is
  evaluated first, so the counter of \<open>getID\<close> has moved even when \<open>svgElement\<close> throws.
\<close>

definition ctx_element :: "form_ctx \<Rightarrow> string \<Rightarrow> world \<Rightarrow> (error + nat) \<times> world" where
  "ctx_element c name w =
     (let iw = SVGForm_getID c w;
          rd = svgElement (group c) name (fst iw) (document (snd iw))
      in (fst rd, (snd iw)\<lparr>document := snd rd\<rparr>))"

text \<open>
  \<^verbatim>\<open>static circle(ctx, pt, radius = 10) {
      let elem = SVGSpace.svgElement(ctx.group, "circle", SVGForm.getID(ctx));
      DOMSpace.setAttr(elem, {
          cx: pt[0], cy: pt[1], r: radius,
          'class': `pts-svgform pts-circle ${ctx.currentClass}`,
      });
      SVGForm.style(elem, ctx.style);
      return elem;
  }\<close>
\<close>

definition SVGForm_circle ::
  "collaborators \<Rightarrow> form_ctx \<Rightarrow> real list \<Rightarrow> real option \<Rightarrow> world \<Rightarrow> (error + nat) \<times> world" where
  "SVGForm_circle K c pt radius_arg w =
     (let radius = (case radius_arg of None \<Rightarrow> 10 | Some r \<Rightarrow> r)
      in case ctx_element c ''circle'' w of
           (Inl e, w1) \<Rightarrow> (Inl e, w1)
         | (Inr elem, w1) \<Rightarrow>
             SVGForm_style K elem (style c)
               (w1\<lparr>document :=
                  setAttr (numToString K) elem
                    [(''cx'', coord pt 0), (''cy'', coord pt 1), (''r'', Num radius),
                     (''class'', Str (''pts-svgform pts-circle '' @ currentClass c))]
                    (document w1)\<rparr>))"

text \<open>
  \<^verbatim>\<open>static square(ctx, pt, halfsize) {
      let elem = SVGSpace.svgElement(ctx.group, "rect", SVGForm.getID(ctx));
      DOMSpace.setAttr(elem, {
          x: pt[0] - halfsize, y: pt[1] - halfsize,
          width: halfsize * 2, height: halfsize * 2,
          'class': `pts-svgform pts-square ${ctx.currentClass}`,
      });
      SVGForm.style(elem, ctx.style);
      return elem;
  }\<close>
\<close>

definition SVGForm_square ::
  "collaborators \<Rightarrow> form_ctx \<Rightarrow> real list \<Rightarrow> real \<Rightarrow> world \<Rightarrow> (error + nat) \<times> world" where
  "SVGForm_square K c pt halfsize w =
     (case ctx_element c ''rect'' w of
        (Inl e, w1) \<Rightarrow> (Inl e, w1)
      | (Inr elem, w1) \<Rightarrow>
          SVGForm_style K elem (style c)
            (w1\<lparr>document :=
               setAttr (numToString K) elem
                 [(''x'', js_minus (coord pt 0) halfsize), (''y'', js_minus (coord pt 1) halfsize),
                  (''width'', Num (halfsize * 2)), (''height'', Num (halfsize * 2)),
                  (''class'', Str (''pts-svgform pts-square '' @ currentClass c))]
                 (document w1)\<rparr>))"

text \<open>
  \<^verbatim>\<open>static point(ctx, pt, radius = 5, shape = "square") {
      if (shape === "circle") { return SVGForm.circle(ctx, pt, radius); }
      else { return SVGForm.square(ctx, pt, radius); }
  }\<close>
\<close>

definition SVGForm_point ::
  "collaborators \<Rightarrow> form_ctx \<Rightarrow> real list \<Rightarrow> real option \<Rightarrow> string option \<Rightarrow> world
     \<Rightarrow> (error + nat) \<times> world" where
  "SVGForm_point K c pt radius_arg shape_arg w =
     (let radius = (case radius_arg of None \<Rightarrow> 5 | Some r \<Rightarrow> r);
          shape = (case shape_arg of None \<Rightarrow> ''square'' | Some s \<Rightarrow> s)
      in if shape = ''circle'' then SVGForm_circle K c pt (Some radius) w
         else SVGForm_square K c pt radius w)"

text \<open>
  \<^verbatim>\<open>static arc(ctx, pt, radius, startAngle, endAngle, cc) {
      let elem = SVGSpace.svgElement(ctx.group, "path", SVGForm.getID(ctx));
      const start = new Pt(pt).toAngle(startAngle, radius, true);
      const end = new Pt(pt).toAngle(endAngle, radius, true);
      const diff = Geom.boundAngle(endAngle) - Geom.boundAngle(startAngle);
      let largeArc = (diff > Const.pi) ? true : false;
      if (cc) largeArc = !largeArc;
      const sweep = (cc) ? "0" : "1";
      const d = `M ${start[0]} ${start[1]} A ${radius} ${radius} 0 ${largeArc ? "1" : "0"} ${sweep} ${end[0]} ${end[1]}`;
      DOMSpace.setAttr(elem, { d: d, 'class': `pts-svgform pts-arc ${ctx.currentClass}` });
      SVGForm.style(elem, ctx.style);
      return elem;
  }\<close>
  The argument \<open>cc\<close> is its truthiness: a call that leaves it out passes \<open>False\<close>. The
  string \<open>d\<close> is a function of its own. The difference of the two bounded angles is a
  double.
\<close>

text \<open>
  Modelled from the spec: \<open>Const.pi\<close> (Util.js is not among the sources), the \<open>\<pi>\<close> of
  "large-arc-flag = (angleDiff > \<pi>) XORed with ccFlag". As a JavaScript number it is
  \<open>Math.PI\<close>, the double nearest to \<open>\<pi>\<close>, 3.141592653589793.
\<close>

definition Const_pi :: real where
  "Const_pi = 884279719003555 / 2 ^ 48"

definition arc_d :: "collaborators \<Rightarrow> real list \<Rightarrow> real \<Rightarrow> real \<Rightarrow> real \<Rightarrow> bool \<Rightarrow> string" where
  "arc_d K pt radius startAngle endAngle cc =
     (let start = toAngle K pt startAngle radius;
          endp = toAngle K pt endAngle radius;
          diff = double (boundAngle K endAngle - boundAngle K startAngle);
          largeArc0 = (if diff > Const_pi then True else False);
          largeArc = (if cc then \<not> largeArc0 else largeArc0);
          sweep = (if cc then ''0'' else ''1'');
          S = to_string (numToString K)
      in ''M '' @ S (coord start 0) @ '' '' @ S (coord start 1)
         @ '' A '' @ S (Num radius) @ '' '' @ S (Num radius) @ '' 0 ''
         @ (if largeArc then ''1'' else ''0'') @ '' '' @ sweep
         @ '' '' @ S (coord endp 0) @ '' '' @ S (coord endp 1))"

definition SVGForm_arc ::
  "collaborators \<Rightarrow> form_ctx \<Rightarrow> real list \<Rightarrow> real \<Rightarrow> real \<Rightarrow> real \<Rightarrow> bool \<Rightarrow> world
     \<Rightarrow> (error + nat) \<times> world" where
  "SVGForm_arc K c pt radius startAngle endAngle cc w =
     (case ctx_element c ''path'' w of
        (Inl e, w1) \<Rightarrow> (Inl e, w1)
      | (Inr elem, w1) \<Rightarrow>
          SVGForm_style K elem (style c)
            (w1\<lparr>document :=
               setAttr (numToString K) elem
                 [(''d'', Str (arc_d K pt radius startAngle endAngle cc)),
                  (''class'', Str (''pts-svgform pts-arc '' @ currentClass c))]
                 (document w1)\<rparr>))"

text \<open>
  A function that ends in \<open>return elem\<close> but may also \<open>return\<close> nothing gives an
  optional element: \<open>None\<close> is \<open>undefined\<close>.
\<close>

definition returned :: "(error + nat) \<times> world \<Rightarrow> (error + nat option) \<times> world" where
  "returned r = (case r of (Inl e, w) \<Rightarrow> (Inl e, w) | (Inr elem, w) \<Rightarrow> (Inr (Some elem), w))"

text \<open>
  \<^verbatim>\<open>static _poly(ctx, pts, closePath = true) {
      if (!this._checkSize(pts)) return;
      let elem = SVGSpace.svgElement(ctx.group, ((closePath) ? "polygon" : "polyline"), SVGForm.getID(ctx));
      let points = pts.reduce((a, p) => a + `${p[0]},${p[1]} `, "");
      DOMSpace.setAttr(elem, {
          points: points,
          'class': `pts-svgform pts-polygon ${ctx.currentClass}`,
      });
      SVGForm.style(elem, ctx.style);
      return elem;
  }\<close>
\<close>

definition poly_points :: "(real \<Rightarrow> string) \<Rightarrow> real list list \<Rightarrow> string" where
  "poly_points ns pts =
     foldl (\<lambda>a p. a @ to_string ns (coord p 0) @ '','' @ to_string ns (coord p 1) @ '' '') [] pts"

definition SVGForm_poly ::
  "collaborators \<Rightarrow> form_ctx \<Rightarrow> real list list \<Rightarrow> bool \<Rightarrow> world \<Rightarrow> (error + nat option) \<times> world" where
  "SVGForm_poly K c pts closePath w =
     (if \<not> checkSize pts then (Inr None, w)
      else
        (case ctx_element c (if closePath then ''polygon'' else ''polyline'') w of
           (Inl e, w1) \<Rightarrow> (Inl e, w1)
         | (Inr elem, w1) \<Rightarrow>
             returned
               (SVGForm_style K elem (style c)
                  (w1\<lparr>document :=
                     setAttr (numToString K) elem
                       [(''points'', Str (poly_points (numToString K) pts)),
                        (''class'', Str (''pts-svgform pts-polygon '' @ currentClass c))]
                       (document w1)\<rparr>))))"

text \<open>
  \<^verbatim>\<open>static line(ctx, pts) {
      if (!this._checkSize(pts)) return;
      if (pts.length > 2) return SVGForm._poly(ctx, pts, false);
      let elem = SVGSpace.svgElement(ctx.group, "line", SVGForm.getID(ctx));
      DOMSpace.setAttr(elem, {
          x1: pts[0][0], y1: pts[0][1], x2: pts[1][0], y2: pts[1][1],
          'class': `pts-svgform pts-line ${ctx.currentClass}`,
      });
      SVGForm.style(elem, ctx.style);
      return elem;
  }\<close>
\<close>

definition SVGForm_line ::
  "collaborators \<Rightarrow> form_ctx \<Rightarrow> real list list \<Rightarrow> world \<Rightarrow> (error + nat option) \<times> world" where
  "SVGForm_line K c pts w =
     (if \<not> checkSize pts then (Inr None, w)
      else if length pts > 2 then SVGForm_poly K c pts False w
      else
        (case ctx_element c ''line'' w of
           (Inl e, w1) \<Rightarrow> (Inl e, w1)
         | (Inr elem, w1) \<Rightarrow>
             returned
               (SVGForm_style K elem (style c)
                  (w1\<lparr>document :=
                     setAttr (numToString K) elem
                       [(''x1'', coord (pts ! 0) 0), (''y1'', coord (pts ! 0) 1),
                        (''x2'', coord (pts ! 1) 0), (''y2'', coord (pts ! 1) 1),
                        (''class'', Str (''pts-svgform pts-line '' @ currentClass c))]
                       (document w1)\<rparr>))))"

text \<open>
  \<^verbatim>\<open>static polygon(ctx, pts) { return SVGForm._poly(ctx, pts, true); }\<close>
\<close>

definition SVGForm_polygon ::
  "collaborators \<Rightarrow> form_ctx \<Rightarrow> real list list \<Rightarrow> world \<Rightarrow> (error + nat option) \<times> world" where
  "SVGForm_polygon K c pts w = SVGForm_poly K c pts True w"

text \<open>
  \<^verbatim>\<open>static rect(ctx, pts) {
      if (!this._checkSize(pts)) return;
      let elem = SVGSpace.svgElement(ctx.group, "rect", SVGForm.getID(ctx));
      let bound = Group.fromArray(pts).boundingBox();
      let size = Rectangle.size(bound);
      DOMSpace.setAttr(elem, {
          x: bound[0][0], y: bound[0][1], width: size[0], height: size[1],
          'class': `pts-svgform pts-rect ${ctx.currentClass}`,
      });
      SVGForm.style(elem, ctx.style);
      return elem;
  }\<close>
\<close>

definition SVGForm_rect ::
  "collaborators \<Rightarrow> form_ctx \<Rightarrow> real list list \<Rightarrow> world \<Rightarrow> (error + nat option) \<times> world" where
  "SVGForm_rect K c pts w =
     (if \<not> checkSize pts then (Inr None, w)
      else
        (case ctx_element c ''rect'' w of
           (Inl e, w1) \<Rightarrow> (Inl e, w1)
         | (Inr elem, w1) \<Rightarrow>
             (let bound = boundingBox K pts;
                  size = rectangleSize K bound
              in returned
                   (SVGForm_style K elem (style c)
                      (w1\<lparr>document :=
                         setAttr (numToString K) elem
                           [(''x'', coord (fst bound) 0), (''y'', coord (fst bound) 1),
                            (''width'', coord size 0), (''height'', coord size 1),
                            (''class'', Str (''pts-svgform pts-rect '' @ currentClass c))]
                           (document w1)\<rparr>)))))"

text \<open>
  \<^verbatim>\<open>static text(ctx, pt, txt) {
      let elem = SVGSpace.svgElement(ctx.group, "text", SVGForm.getID(ctx));
      DOMSpace.setAttr(elem, {
          "pointer-events": "none",
          x: pt[0], y: pt[1], dx: 0, dy: 0,
          'class': `pts-svgform pts-text ${ctx.currentClass}`,
      });
      elem.textContent = txt;
      SVGForm.style(elem, ctx.style);
      return elem;
  }\<close>
\<close>

definition SVGForm_text ::
  "collaborators \<Rightarrow> form_ctx \<Rightarrow> real list \<Rightarrow> string \<Rightarrow> world \<Rightarrow> (error + nat) \<times> world" where
  "SVGForm_text K c pt txt w =
     (case ctx_element c ''text'' w of
        (Inl e, w1) \<Rightarrow> (Inl e, w1)
      | (Inr elem, w1) \<Rightarrow>
          (let d1 = setAttr (numToString K) elem
                      [(''pointer-events'', Str ''none''),
                       (''x'', coord pt 0), (''y'', coord pt 1), (''dx'', Num 0), (''dy'', Num 0),
                       (''class'', Str (''pts-svgform pts-text '' @ currentClass c))]
                      (document w1);
               d2 = d1[elem := (d1 ! elem)\<lparr>textContent := txt\<rparr>]
           in SVGForm_style K elem (style c) (w1\<lparr>document := d2\<rparr>)))"


section \<open>SVGForm: the drawing methods of a form\<close>

text \<open>
  Each method is \<open>this.nextID(); SVGForm.f(this._ctx, ...); return this;\<close>. The static
  function reads the context and changes the world only.
\<close>

definition drawn :: "form_state \<Rightarrow> (error + 'a) \<times> world \<Rightarrow> error option \<times> form_state" where
  "drawn s r = (case r of (Inl e, w) \<Rightarrow> (Some e, s\<lparr>world := w\<rparr>) | (Inr x, w) \<Rightarrow> (None, s\<lparr>world := w\<rparr>))"

definition form_point :: "collaborators \<Rightarrow> real list \<Rightarrow> real option \<Rightarrow> string option \<Rightarrow> form_method" where
  "form_point K pt radius shape s =
     (let s1 = snd (form_nextID s)
      in drawn s1 (SVGForm_point K (ctx s1) pt radius shape (world s1)))"

text \<open>
  \<^verbatim>\<open>circle(pts) {
      this.nextID();
      SVGForm.circle(this._ctx, pts[0], pts[1][0]);
      return this;
  }\<close>
  With fewer than two entries \<open>pts[1]\<close> is undefined and \<open>pts[1][0]\<close> throws a TypeError;
  an empty \<open>pts[1]\<close> leaves the radius undefined, which selects the default.
\<close>

definition form_circle :: "collaborators \<Rightarrow> real list list \<Rightarrow> form_method" where
  "form_circle K pts s =
     (let s1 = snd (form_nextID s)
      in if length pts < 2 then (Some TypeError, s1)
         else drawn s1
                (SVGForm_circle K (ctx s1) (pts ! 0)
                   (case pts ! 1 of [] \<Rightarrow> None | r # rs \<Rightarrow> Some r) (world s1)))"

definition form_arc :: "collaborators \<Rightarrow> real list \<Rightarrow> real \<Rightarrow> real \<Rightarrow> real \<Rightarrow> bool \<Rightarrow> form_method" where
  "form_arc K pt radius startAngle endAngle cc s =
     (let s1 = snd (form_nextID s)
      in drawn s1 (SVGForm_arc K (ctx s1) pt radius startAngle endAngle cc (world s1)))"

definition form_square :: "collaborators \<Rightarrow> real list \<Rightarrow> real \<Rightarrow> form_method" where
  "form_square K pt halfsize s =
     (let s1 = snd (form_nextID s)
      in drawn s1 (SVGForm_square K (ctx s1) pt halfsize (world s1)))"

definition form_line :: "collaborators \<Rightarrow> real list list \<Rightarrow> form_method" where
  "form_line K pts s =
     (let s1 = snd (form_nextID s)
      in drawn s1 (SVGForm_line K (ctx s1) pts (world s1)))"

definition form_polygon :: "collaborators \<Rightarrow> real list list \<Rightarrow> form_method" where
  "form_polygon K pts s =
     (let s1 = snd (form_nextID s)
      in drawn s1 (SVGForm_polygon K (ctx s1) pts (world s1)))"

definition form_rect :: "collaborators \<Rightarrow> real list list \<Rightarrow> form_method" where
  "form_rect K pts s =
     (let s1 = snd (form_nextID s)
      in drawn s1 (SVGForm_rect K (ctx s1) pts (world s1)))"

definition form_text :: "collaborators \<Rightarrow> real list \<Rightarrow> string \<Rightarrow> form_method" where
  "form_text K pt txt s =
     (let s1 = snd (form_nextID s)
      in drawn s1 (SVGForm_text K (ctx s1) pt txt (world s1)))"

text \<open>
  \<^verbatim>\<open>log(txt) {
      this.fill("#000").stroke("#fff", 0.5).text([10, 14], txt);
      return this;
  }\<close>
\<close>

definition form_log :: "collaborators \<Rightarrow> string \<Rightarrow> form_method" where
  "form_log K txt =
     and_then (form_fill (Str ''#000''))
    (and_then (form_stroke (Str ''#fff'') (Num 0.5) Undefined Undefined)
              (form_text K [10, 14] txt))"

text \<open>The eight drawing methods as one type of calls, to speak of every draw call.\<close>

datatype draw_call =
    Point "real list" "real option" "string option"
  | Circle "real list list"
  | Arc "real list" real real real bool
  | Square "real list" real
  | Line "real list list"
  | Polygon "real list list"
  | Rect "real list list"
  | Text "real list" string

fun form_draw :: "collaborators \<Rightarrow> draw_call \<Rightarrow> form_method" where
  "form_draw K (Point pt radius shape) = form_point K pt radius shape"
| "form_draw K (Circle pts) = form_circle K pts"
| "form_draw K (Arc pt radius startAngle endAngle cc) = form_arc K pt radius startAngle endAngle cc"
| "form_draw K (Square pt halfsize) = form_square K pt halfsize"
| "form_draw K (Line pts) = form_line K pts"
| "form_draw K (Polygon pts) = form_polygon K pts"
| "form_draw K (Rect pts) = form_rect K pts"
| "form_draw K (Text pt txt) = form_text K pt txt"

text \<open>
  Sample collaborators for the concrete instances below. A number prints as
  JavaScript prints it where it is an integer or has one decimal digit (no other
  number is printed there): the sign, the integer part and, unless the number is an
  integer, the point and the tenths. Angles are not changed by the bounding
  function, and \<open>toAngle\<close> moves the anchor by the polar vector.
\<close>

definition show_decimal :: "real \<Rightarrow> string" where
  "show_decimal r =
     (let a = \<bar>r\<bar>; i = nat \<lfloor>a\<rfloor>
      in (if r < 0 then ''-'' else [])
         @ show_nat i
         @ (if real i = a then [] else ''.'' @ [digit (nat \<lfloor>a * 10\<rfloor> mod 10)]))"

definition sample_collaborators :: collaborators where
  "sample_collaborators =
     \<lparr>numToString = show_decimal,
      boundAngle = (\<lambda>a. a),
      toAngle = (\<lambda>pt a r. [pt ! 0 + cos a * r, pt ! 1 + sin a * r]),
      boundingBox = (\<lambda>pts. (pts ! 0, pts ! 1)),
      rectangleSize = (\<lambda>b. [fst b ! 0 - snd b ! 0, fst b ! 1 - snd b ! 1]),
      fontValue = (\<lambda>f. show_decimal (font_size f) @ ''px '' @ font_face f)\<rparr>"

text \<open>
  A document with one element, the \<open>svg\<close> root; a form as the constructor leaves it,
  and the form once the space has run its \<open>start\<close> callback.
\<close>

definition svg_root :: element where
  "svg_root = \<lparr>tagName = ''svg'', attributes = [(''id'', ''pt'')], parentNode = 0, textContent = []\<rparr>"

definition new_form :: form_state where
  "new_form =
     SVGForm_new \<lparr>font_size = 14, font_face = ''sans-serif''\<rparr>
       \<lparr>document = [svg_root], static_domID = 0, static_groupID = 0\<rparr>"

definition started_form :: form_state where
  "started_form = form_start 0 new_form"

text \<open>The world after one static call has drawn a line of two points for that form.\<close>

definition line_drawn :: world where
  "line_drawn =
     snd (SVGForm_line sample_collaborators (ctx started_form) [[0, 0], [1, 1]]
            (world started_form))"

text \<open>
  What it means that a static drawing function, called with the context \<open>c\<close> in the
  world \<open>w\<close>, has drawn the element \<open>elem\<close> with the style of the context: in the world
  it leaves, the element is the one that the document holds under the id of the
  context, and its \<open>style\<close> attribute is the context's style as \<open>SVGForm.style\<close> writes it.
\<close>

definition drawn_with :: "collaborators \<Rightarrow> form_ctx \<Rightarrow> world \<Rightarrow> nat \<Rightarrow> world \<Rightarrow> bool" where
  "drawn_with K c w elem w' \<longleftrightarrow>
     elem < length (document w')
     \<and> querySelector_id (document w') (fst (SVGForm_getID c w)) = Some elem
     \<and> map_of (attributes (document w' ! elem)) ''style''
         = Some (join '';'' (style_list (numToString K) (style c)))"

text \<open>
  The calls that reach \<open>svgElement\<close>: all but a line, polygon or rectangle of fewer than
  two points, which \<open>_checkSize\<close> turns away.
\<close>

fun draws_element :: "draw_call \<Rightarrow> bool" where
  "draws_element (Line pts) = checkSize pts"
| "draws_element (Polygon pts) = checkSize pts"
| "draws_element (Rect pts) = checkSize pts"
| "draws_element call = True"

section \<open>Properties of the rounding\<close>

text \<open>
  Where the exponent of \<open>x\<close> is known, the rounding is one division, one rounding to
  an integer and one multiplication.
\<close>

lemma float_round_eval:
  assumes "2 powr of_int e \<le> \<bar>x\<bar>" and "\<bar>x\<bar> < 2 powr of_int (e + 1)" and "emin \<le> e"
  shows "float_round p emin x
           = of_int (round_half_even (x / 2 powr of_int (e - p + 1))) * 2 powr of_int (e - p + 1)"
proof -
  have pos: "0 < \<bar>x\<bar>"
    using assms(1) by (smt (verit) powr_gt_zero)
  have "\<lfloor>log 2 \<bar>x\<bar>\<rfloor> = e"
    using assms(1,2) pos by (subst floor_log_eq_powr_iff) auto
  with pos assms(3) show ?thesis
    by (simp add: float_round_def Let_def max_def)
qed

lemma double_eval:
  assumes "2 powr of_int e \<le> \<bar>x\<bar>" and "\<bar>x\<bar> < 2 powr of_int (e + 1)" and "- 1022 \<le> e"
  shows "double x = of_int (round_half_even (x / 2 powr of_int (e - 52))) * 2 powr of_int (e - 52)"
  using float_round_eval [OF assms(1,2), of "- 1022" 53] assms(3) by (simp add: double_def)

lemma single_eval:
  assumes "2 powr of_int e \<le> \<bar>x\<bar>" and "\<bar>x\<bar> < 2 powr of_int (e + 1)" and "- 126 \<le> e"
  shows "single x = of_int (round_half_even (x / 2 powr of_int (e - 23))) * 2 powr of_int (e - 23)"
  using float_round_eval [OF assms(1,2), of "- 126" 24] assms(3) by (simp add: single_def)


lemma round_half_even_of_int: "round_half_even (of_int m) = m"
  by (simp add: round_half_even_def)

lemma round_half_even_bounds: "\<lfloor>z\<rfloor> \<le> round_half_even z \<and> round_half_even z \<le> \<lceil>z\<rceil>"
proof -
  have "z - of_int \<lfloor>z\<rfloor> = 0 \<or> \<lceil>z\<rceil> = \<lfloor>z\<rfloor> + 1"
    by (smt (verit) ceiling_altdef of_int_floor_le floor_correct of_int_floor_cancel)
  then show ?thesis
    by (auto simp: round_half_even_def Let_def)
qed

lemma round_half_even_abs:
  assumes "\<bar>z\<bar> \<le> of_int n"
  shows "\<bar>round_half_even z\<bar> \<le> n"
proof -
  from assms have "- of_int n \<le> z" and "z \<le> of_int n"
    by linarith+
  then have "- n \<le> \<lfloor>z\<rfloor>" and "\<lceil>z\<rceil> \<le> n"
    by (simp_all add: le_floor_iff ceiling_le_iff)
  with round_half_even_bounds [of z] show ?thesis
    by linarith
qed

lemma float_round_exact:
  assumes k: "\<bar>k\<bar> \<le> 2 ^ nat p" and p: "1 \<le> p" and j: "emin - p + 1 \<le> j"
  shows "float_round p emin (of_int k * 2 powr of_int j) = of_int k * 2 powr of_int j"
proof (cases "k = 0")
  case True
  then show ?thesis by (simp add: float_round_def)
next
  case False
  define y :: real where "y = of_int k * 2 powr of_int j"
  define e where "e = \<lfloor>log 2 \<bar>y\<bar>\<rfloor>"
  define e2 where "e2 = max e emin"
  have y0: "y \<noteq> 0" "0 < \<bar>y\<bar>"
    using False by (simp_all add: y_def)
  have lo: "2 powr of_int e \<le> \<bar>y\<bar>" and hi: "\<bar>y\<bar> < 2 powr of_int (e + 1)"
    using floor_log_eq_powr_iff [of "\<bar>y\<bar>" 2 e] y0 by (simp_all add: e_def)
  have absy: "\<bar>y\<bar> = of_int \<bar>k\<bar> * 2 powr of_int j"
    by (simp add: y_def abs_mult)
  have "of_int \<bar>k\<bar> \<le> (2::real) ^ nat p"
    using k by (metis of_int_le_iff of_int_numeral of_int_power)
  also have "\<dots> = 2 powr of_int p"
    using p by (simp add: powr_realpow [symmetric])
  finally have kp: "of_int \<bar>k\<bar> \<le> (2::real) powr of_int p" .
  have ub: "\<bar>y\<bar> \<le> 2 powr of_int (p + j)"
    using kp by (simp add: absy powr_add mult_right_mono)
  have "2 powr of_int e \<le> (2::real) powr of_int (p + j)"
    using lo ub by linarith
  then have e_le: "e \<le> p + j"
    by simp
  have fr: "float_round p emin y
      = of_int (round_half_even (y / 2 powr of_int (e2 - p + 1))) * 2 powr of_int (e2 - p + 1)"
    using y0 by (simp add: float_round_def Let_def e_def e2_def)
  have e2_le: "e2 \<le> p + j"
    using e_le j by (simp add: e2_def)
  consider (a) "e2 \<le> p + j - 1" | (b) "e2 = p + j"
    using e2_le by linarith
  then have "\<exists>m. y / 2 powr of_int (e2 - p + 1) = of_int m"
  proof cases
    case a
    define d where "d = nat (p + j - 1 - e2)"
    have "y / 2 powr of_int (e2 - p + 1) = of_int k * 2 powr (of_int j - of_int (e2 - p + 1))"
      by (simp add: y_def powr_diff)
    also have "of_int j - of_int (e2 - p + 1) = (real d)"
      using a by (simp add: d_def)
    also have "of_int k * 2 powr (real d) = of_int (k * 2 ^ d)"
      by (simp add: powr_realpow)
    finally show ?thesis by blast
  next
    case b
    then have "e = p + j"
      using j by (simp add: e2_def max_def split: if_splits)
    with lo ub have "\<bar>y\<bar> = 2 powr of_int (p + j)"
      by simp
    then have "of_int \<bar>k\<bar> = (2::real) powr of_int p"
      by (simp add: absy powr_add)
    then have "of_int \<bar>k\<bar> = (2::real) ^ nat p"
      using p by (simp add: powr_realpow [symmetric])
    then have "\<bar>k\<bar> = 2 ^ nat p"
      by (metis of_int_eq_iff of_int_numeral of_int_power)
    moreover from p obtain q where "nat p = Suc q"
      by (cases "nat p") auto
    ultimately have "\<bar>k\<bar> = 2 * 2 ^ q"
      by simp
    then have "k = 2 * 2 ^ q \<or> k = - (2 * 2 ^ q)"
      by linarith
    then obtain m where m: "k = 2 * m"
      by auto
    have "y / 2 powr of_int (e2 - p + 1) = of_int k * 2 powr (of_int j - of_int (e2 - p + 1))"
      by (simp add: y_def powr_diff)
    also have "of_int j - of_int (e2 - p + 1) = (- 1::real)"
      using b by simp
    also have "of_int k * 2 powr (- 1::real) = of_int m"
      by (simp add: m powr_minus)
    finally show ?thesis by blast
  qed
  then obtain m where "y / 2 powr of_int (e2 - p + 1) = of_int m" ..
  then have "float_round p emin y = y / 2 powr of_int (e2 - p + 1) * 2 powr of_int (e2 - p + 1)"
    by (simp add: fr round_half_even_of_int)
  then show ?thesis
    by (simp add: y_def)
qed

lemma float_round_repr:
  assumes p: "1 \<le> p"
  shows "\<exists>k j. float_round p emin x = of_int k * 2 powr of_int j
            \<and> \<bar>k\<bar> \<le> 2 ^ nat p \<and> emin - p + 1 \<le> j"
proof (cases "x = 0")
  case True
  then have "float_round p emin x = of_int 0 * 2 powr of_int (emin - p + 1)"
    by (simp add: float_round_def)
  then show ?thesis
    by (metis abs_zero order_refl zero_le_numeral zero_le_power)
next
  case False
  define e where "e = \<lfloor>log 2 \<bar>x\<bar>\<rfloor>"
  define e2 where "e2 = max e emin"
  define u where "u = (2::real) powr of_int (e2 - p + 1)"
  have hi: "\<bar>x\<bar> < 2 powr of_int (e + 1)"
    using floor_log_eq_powr_iff [of "\<bar>x\<bar>" 2 e] False by (simp add: e_def)
  have "2 powr of_int (e + 1) \<le> (2::real) powr of_int (e2 + 1)"
    by (simp add: e2_def)
  with hi have "\<bar>x\<bar> \<le> 2 powr of_int (e2 + 1)"
    by linarith
  also have "(2::real) powr of_int (e2 + 1) = 2 powr of_int p * u"
    by (simp add: u_def powr_add [symmetric])
  finally have "\<bar>x\<bar> / u \<le> 2 powr of_int p"
    by (simp add: u_def pos_divide_le_eq)
  moreover have "(2::real) powr of_int p = of_int (2 ^ nat p)"
    using p by (simp add: powr_realpow [symmetric])
  ultimately have "\<bar>x / u\<bar> \<le> of_int (2 ^ nat p)"
    by (simp add: u_def)
  then have "\<bar>round_half_even (x / u)\<bar> \<le> 2 ^ nat p"
    by (rule round_half_even_abs)
  moreover have "float_round p emin x = of_int (round_half_even (x / u)) * 2 powr of_int (e2 - p + 1)"
    using False by (simp add: float_round_def Let_def e_def e2_def u_def)
  moreover have "emin - p + 1 \<le> e2 - p + 1"
    by (simp add: e2_def)
  ultimately show ?thesis
    by blast
qed

lemma float_round_idem:
  assumes "1 \<le> p"
  shows "float_round p emin (float_round p emin x) = float_round p emin x"
proof -
  from float_round_repr [OF assms, of emin x]
  obtain k j where "float_round p emin x = of_int k * 2 powr of_int j"
    and "\<bar>k\<bar> \<le> 2 ^ nat p" and "emin - p + 1 \<le> j"
    by blast
  then show ?thesis
    using float_round_exact [OF _ assms, of k emin j] by simp
qed

lemma double_double: "double (double x) = double x"
  by (simp add: double_def float_round_idem)

lemma double_0: "double 0 = 0"
  by (simp add: double_def float_round_def)

lemma double_of_nat:
  assumes "n \<le> 2 ^ 53"
  shows "double (real n) = real n"
proof -
  have "float_round 53 (- 1022) (of_int (int n) * 2 powr of_int 0) = of_int (int n) * 2 powr of_int 0"
  proof (rule float_round_exact)
    have "int n \<le> 2 ^ 53"
      using assms by (metis of_nat_le_iff of_nat_numeral of_nat_power)
    then show "\<bar>int n\<bar> \<le> 2 ^ nat 53"
      by simp
  qed simp_all
  then show ?thesis
    by (simp add: double_def)
qed

lemma double_ge_1:
  assumes "1 \<le> x"
  shows "1 \<le> double x"
proof -
  define e where "e = \<lfloor>log 2 \<bar>x\<bar>\<rfloor>"
  define u where "u = (2::real) powr of_int (e - 52)"
  have x: "0 < x" "\<bar>x\<bar> = x"
    using assms by simp_all
  have e0: "0 \<le> e"
    using assms by (simp add: e_def)
  have lo: "2 powr of_int e \<le> x"
    using floor_log_eq_powr_iff [of "\<bar>x\<bar>" 2 e] x by (simp add: e_def)
  have "max \<lfloor>log 2 \<bar>x\<bar>\<rfloor> (- 1022) = e"
    using e0 by (simp add: e_def)
  then have d: "double x = of_int (round_half_even (x / u)) * u"
    using x by (simp add: double_def float_round_def Let_def u_def)
  have "(2::real) powr of_int e = 2 ^ 52 * u"
    by (simp add: u_def powr_diff)
  with lo have "2 ^ 52 \<le> x / u"
    by (simp add: u_def pos_le_divide_eq)
  then have "(2::int) ^ 52 \<le> \<lfloor>x / u\<rfloor>"
    by (simp add: le_floor_iff)
  with round_half_even_bounds [of "x / u"] have "(2::int) ^ 52 \<le> round_half_even (x / u)"
    by linarith
  then have "(2::real) ^ 52 \<le> of_int (round_half_even (x / u))"
    by (metis of_int_le_iff of_int_numeral of_int_power)
  then have "2 ^ 52 * u \<le> of_int (round_half_even (x / u)) * u"
    by (simp add: u_def)
  also have "(2::real) ^ 52 * u = 2 powr of_int e"
    by (simp add: u_def powr_diff)
  finally have "2 powr of_int e \<le> double x"
    by (simp add: d)
  moreover have "(1::real) \<le> 2 powr of_int e"
    using e0 by (simp add: ge_one_powr_ge_zero)
  ultimately show ?thesis
    by linarith
qed

text \<open>The three literals of the default distribution, as doubles and as stored in a \<open>Pt\<close>.\<close>

lemma double_006: "double (0.06) = 1080863910568919 / 2 ^ 54"
  by (subst double_eval [where e = "- 5"]) (simp_all add: round_half_even_def powr_neg_numeral)

lemma single_006: "single (1080863910568919 / 2 ^ 54) = 16106127 / 2 ^ 28"
  by (subst single_eval [where e = "- 5"]) (simp_all add: round_half_even_def powr_neg_numeral)

lemma double_08: "double (0.8) = 3602879701896397 / 2 ^ 52"
  by (subst double_eval [where e = "- 1"]) (simp_all add: round_half_even_def powr_neg_numeral)

lemma single_08: "single (3602879701896397 / 2 ^ 52) = 13421773 / 2 ^ 24"
  by (subst single_eval [where e = "- 1"]) (simp_all add: round_half_even_def powr_neg_numeral)

lemma double_014: "double (0.14) = 1261007895663739 / 2 ^ 53"
  by (subst double_eval [where e = "- 3"]) (simp_all add: round_half_even_def powr_neg_numeral)

lemma single_014: "single (1261007895663739 / 2 ^ 53) = 9395241 / 2 ^ 26"
  by (subst single_eval [where e = "- 3"]) (simp_all add: round_half_even_def powr_neg_numeral)

lemma Pt_default_distribution:
  "Pt default_distribution = [16106127 / 2 ^ 28, 13421773 / 2 ^ 24, 9395241 / 2 ^ 26]"
  by (simp only: Pt_def default_distribution_def list.map double_006 double_08 double_014
        single_006 single_08 single_014)

section \<open>Properties of Typography\<close>



text \<open>
  The same holds where the quotient and the product are rounded to doubles, for a
  text of at most \<open>2 ^ 53\<close> characters (a JavaScript string has fewer): the rounded
  quotient is at least 1, and the length is a double.
\<close>

lemma truncate_double_fits_unchanged:
  assumes "0 < fn text" and "fn text \<le> width" and "length text \<le> 2 ^ 53"
  shows "Typography_truncate_double fn text width tail = (text, int (length text))"
proof -
  from assms have "1 \<le> width / fn text"
    by simp
  then have "1 \<le> double (width / fn text)"
    by (rule double_ge_1)
  then have "min 1 (double (width / fn text)) = 1"
    by simp
  moreover have "double (real (length text)) = real (length text)"
    using assms(3) by (rule double_of_nat)
  ultimately show ?thesis
    using assms(1) by (simp add: Typography_truncate_double_def Let_def)
qed

text \<open>
  Where the text is trimmed the rounding counts. A text of 22 characters measured at
  22 and a width of 15: the quotient \<open>15 / 22\<close> rounds down, its product with 22 rounds
  to the double just below 15, and the code keeps 14 characters where the exact
  product keeps 15.
\<close>

lemma truncate_double_rounds_down:
  "Typography_truncate_double (monospace 1) ''abcdefghijklmnopqrstuv'' 15 None
     = (''abcdefghijklmn'', 14)
   \<and> Typography_truncate (monospace 1) ''abcdefghijklmnopqrstuv'' 15 None
     = (''abcdefghijklmno'', 15)"
proof -
  have q: "double (15 / 22) = 6141272219141585 / 2 ^ 53"
    by (subst double_eval [where e = "- 1"]) (simp_all add: round_half_even_def powr_neg_numeral)
  have p: "double (22 * (6141272219141585 / 2 ^ 53)) = 8444249301319679 / 2 ^ 49"
    by (subst double_eval [where e = 3]) (simp_all add: round_half_even_def powr_neg_numeral)
  have m: "min 1 (6141272219141585 / 2 ^ 53) = (6141272219141585 / 2 ^ 53 :: real)"
    by simp
  have "double (22 * min 1 (double (15 / 22))) = 8444249301319679 / 2 ^ 49"
    by (simp only: q m p)
  moreover have "\<lfloor>8444249301319679 / 2 ^ 49 :: real\<rfloor> = 14"
    by simp
  ultimately have "\<lfloor>double (22 * min 1 (double (15 / 22)))\<rfloor> = 14"
    by (simp only:)
  then have "Typography_truncate_double (monospace 1) ''abcdefghijklmnopqrstuv'' 15 None
      = (''abcdefghijklmn'', 14)"
    by (simp add: Typography_truncate_double_def monospace_def Let_def)
  moreover have "Typography_truncate (monospace 1) ''abcdefghijklmnopqrstuv'' 15 None
      = (''abcdefghijklmno'', 15)"
    by (simp add: Typography_truncate_def monospace_def Let_def)
  ultimately show ?thesis ..
qed

text \<open>
  C2, as amended. Let \<open>trim\<close> be \<open>floor (length text * min 1 (width / fn text))\<close> as the
  code computes it, the quotient and the product each rounded to a double. When
  \<open>fn text > 0\<close> and \<open>trim\<close> is smaller than the length of the text, the second
  component of the result is \<open>max 0 (trim - length tail)\<close>, which lies between 0 and the
  length of the text, and the returned string is the first that many characters
  followed by the whole tail, of length \<open>max 0 (trim - length tail) + length tail\<close>: at
  most the length of the text whenever the tail is no longer than the text (so always
  for the default, empty tail).
\<close>

theorem truncate_trimmed_bounds:
  assumes "0 < fn text"
    and "\<lfloor>double (real (length text) * min 1 (double (width / fn text)))\<rfloor> < int (length text)"
    and "tail = (case tail_arg of None \<Rightarrow> [] | Some t \<Rightarrow> t)"
  shows "snd (Typography_truncate_double fn text width tail_arg)
           = max 0 (\<lfloor>double (real (length text) * min 1 (double (width / fn text)))\<rfloor>
                    - int (length tail))
    \<and> 0 \<le> snd (Typography_truncate_double fn text width tail_arg)
    \<and> snd (Typography_truncate_double fn text width tail_arg) \<le> int (length text)
    \<and> fst (Typography_truncate_double fn text width tail_arg)
         = take (nat (snd (Typography_truncate_double fn text width tail_arg))) text @ tail
    \<and> int (length (fst (Typography_truncate_double fn text width tail_arg)))
         = snd (Typography_truncate_double fn text width tail_arg) + int (length tail)
    \<and> (length tail \<le> length text
        \<longrightarrow> length (fst (Typography_truncate_double fn text width tail_arg)) \<le> length text)"
proof -
  define trim where "trim = \<lfloor>double (real (length text) * min 1 (double (width / fn text)))\<rfloor>"
  define trim' where "trim' = max 0 (trim - int (length tail))"
  have lt: "trim < int (length text)"
    using assms(2) by (simp add: trim_def)
  have res: "Typography_truncate_double fn text width tail_arg = (take (nat trim') text @ tail, trim')"
    using assms(1) assms(3) lt
    by (simp add: Typography_truncate_double_def Let_def trim_def trim'_def)
  have lo: "0 \<le> trim'"
    by (simp add: trim'_def)
  have hi: "trim' \<le> int (length text)"
    using lt by (simp add: trim'_def)
  have len: "int (length (take (nat trim') text @ tail)) = trim' + int (length tail)"
    using lo hi by simp
  have short: "length (take (nat trim') text @ tail) \<le> length text"
    if "length tail \<le> length text"
  proof -
    have "trim' + int (length tail) \<le> int (length text)"
      using lt that by (simp add: trim'_def)
    with len show ?thesis by linarith
  qed
  have "snd (Typography_truncate_double fn text width tail_arg) = trim'"
    and "fst (Typography_truncate_double fn text width tail_arg) = take (nat trim') text @ tail"
    by (simp_all add: res)
  with lo hi len short show ?thesis
    unfolding trim'_def trim_def by presburger
qed

text \<open>Rounding changes nothing in the two instances below: one half, 4 and 1 are doubles.\<close>

lemma double_half: "double (1 / 2) = 1 / 2"
  by (subst double_eval [where e = "- 1"]) (simp_all add: round_half_even_def powr_neg_numeral)

lemma double_4: "double 4 = 4"
  using double_of_nat [of 4] by simp

lemma double_1: "double 1 = 1"
  using double_of_nat [of 1] by simp

theorem truncate_trimmed_bounds_witness:
  "0 < monospace 5 ''abcdefgh''
   \<and> \<lfloor>double (real (length ''abcdefgh'') * min 1 (double (20 / monospace 5 ''abcdefgh'')))\<rfloor>
       < int (length ''abcdefgh'')
   \<and> Typography_truncate_double (monospace 5) ''abcdefgh'' 20 (Some ''..'') = (''ab..'', 2)
   \<and> length ''..'' \<le> length ''abcdefgh''
   \<and> length (fst (Typography_truncate_double (monospace 5) ''abcdefgh'' 20 (Some ''..'')))
       \<le> length ''abcdefgh''"
proof -
  have pos: "0 < monospace 5 ''abcdefgh''"
    by (simp add: monospace_def)
  have trim: "\<lfloor>double (real (length ''abcdefgh'')
                  * min 1 (double (20 / monospace 5 ''abcdefgh'')))\<rfloor> = 4"
    by (simp add: monospace_def double_half double_4)
  have val: "Typography_truncate_double (monospace 5) ''abcdefgh'' 20 (Some ''..'') = (''ab..'', 2)"
    using trim by (simp add: Typography_truncate_double_def monospace_def Let_def)
  from truncate_trimmed_bounds [of "monospace 5" "''abcdefgh''" 20 "''..''" "Some ''..''"]
    pos trim val
  show ?thesis by simp
qed

text \<open>
  C2 as stated fails: the tail is appended whole even when fewer than
  \<open>length tail\<close> characters are kept. With a text of 2 characters measured at 10 and a
  width of 5, \<open>trim\<close> is 1, the clamp gives 0, and the result is the tail \<open>...\<close>
  alone, which is longer than the text.
\<close>

theorem truncate_longer_than_text:
  "0 < monospace 5 ''ab''
   \<and> \<lfloor>double (real (length ''ab'') * min 1 (double (5 / monospace 5 ''ab'')))\<rfloor>
       < int (length ''ab'')
   \<and> Typography_truncate_double (monospace 5) ''ab'' 5 (Some ''...'') = (''...'', 0)
   \<and> \<not> length (fst (Typography_truncate_double (monospace 5) ''ab'' 5 (Some ''...'')))
         \<le> length ''ab''"
proof -
  have trim: "\<lfloor>double (real (length ''ab'') * min 1 (double (5 / monospace 5 ''ab'')))\<rfloor> = 1"
    by (simp add: monospace_def double_half double_1)
  have val: "Typography_truncate_double (monospace 5) ''ab'' 5 (Some ''...'') = (''...'', 0)"
    using trim by (simp add: Typography_truncate_double_def monospace_def Let_def)
  show ?thesis
    using trim val by (simp add: monospace_def)
qed

text \<open>
  The estimator multiplies the length by the captured \<open>avg\<close>; with the default
  arguments \<open>avg\<close> is the sum of three products, whose first factors are the
  distribution as the \<open>Pt\<close> holds it.
\<close>

lemma textWidthEstimator_avg:
  "Typography_textWidthEstimator fn samples distribution str
     = double (real (length str) * estimator_avg fn samples distribution)"
  by (simp add: Typography_textWidthEstimator_def Let_def)

lemma estimator_avg_default:
  "estimator_avg M None None
     = double (double (double (16106127 / 2 ^ 28 * M ''M'') + double (13421773 / 2 ^ 24 * M ''n''))
               + double (9395241 / 2 ^ 26 * M ''.''))"
proof -
  have "estimator_avg M None None
      = dot [16106127 / 2 ^ 28, 13421773 / 2 ^ 24, 9395241 / 2 ^ 26] [M ''M'', M ''n'', M ''.'']"
    by (simp only: estimator_avg_def Let_def option.case Pt_default_distribution
          default_samples_def list.map)
  also have "\<dots> = double (double (double (0 + double (16106127 / 2 ^ 28 * M ''M''))
                             + double (13421773 / 2 ^ 24 * M ''n''))
                     + double (9395241 / 2 ^ 26 * M ''.''))"
    by (simp only: dot_def zip.simps list.case foldl.simps prod.case)
  also have "double (0 + double (16106127 / 2 ^ 28 * M ''M'')) = double (16106127 / 2 ^ 28 * M ''M'')"
    by (simp only: add_0 double_double)
  finally show ?thesis .
qed

text \<open>
  C3, as amended. With the default samples and distribution, the estimator built from
  a measure function \<open>M\<close> maps every string \<open>S\<close> to \<open>length S * avg\<close>, rounded to a
  double, where \<open>avg\<close> is \<open>a * M "M" + b * M "n" + c * M "."\<close> with every product and
  sum rounded to a double, and \<open>a\<close>, \<open>b\<close>, \<open>c\<close> are 0.06, 0.8 and 0.14 rounded to single
  precision: \<open>16106127 / 2 ^ 28\<close> (0.05999999865889549), \<open>13421773 / 2 ^ 24\<close>
  (0.800000011920929) and \<open>9395241 / 2 ^ 26\<close> (0.14000000059604645).
\<close>

theorem textWidthEstimator_default_single:
  "Typography_textWidthEstimator M None None S
     = double (real (length S)
         * double (double (double (16106127 / 2 ^ 28 * M ''M'') + double (13421773 / 2 ^ 24 * M ''n''))
                   + double (9395241 / 2 ^ 26 * M ''.'')))"
  by (simp only: textWidthEstimator_avg estimator_avg_default)

text \<open>
  C3 as stated fails: the distribution is not used as written but as the \<open>Pt\<close> holds
  it. Where every sample measures 1, the estimate of a text of 3 characters is
  \<open>805306377 / 2 ^ 28\<close> (3.0000000335276127), and the value the claim gives,
  \<open>3 * (0.06 * 1 + 0.8 * 1 + 0.14 * 1)\<close>, is 3, in exact arithmetic and in doubles.
\<close>

theorem textWidthEstimator_differs_from_specified:
  "Typography_textWidthEstimator (monospace 1) None None ''abc'' = 805306377 / 2 ^ 28
   \<and> specified_estimate (monospace 1) ''abc'' = 3
   \<and> real (length ''abc'')
       * (0.06 * monospace 1 ''M'' + 0.8 * monospace 1 ''n'' + 0.14 * monospace 1 ''.'') = 3
   \<and> Typography_textWidthEstimator (monospace 1) None None ''abc''
       \<noteq> specified_estimate (monospace 1) ''abc''
   \<and> Typography_textWidthEstimator (monospace 1) None None ''abc''
       \<noteq> real (length ''abc'')
           * (0.06 * monospace 1 ''M'' + 0.8 * monospace 1 ''n'' + 0.14 * monospace 1 ''.'')"
proof -
  have a: "double (16106127 / 2 ^ 28) = 16106127 / 2 ^ 28"
    by (subst double_eval [where e = "- 5"]) (simp_all add: round_half_even_def powr_neg_numeral)
  have b: "double (13421773 / 2 ^ 24) = 13421773 / 2 ^ 24"
    by (subst double_eval [where e = "- 1"]) (simp_all add: round_half_even_def powr_neg_numeral)
  have c: "double (9395241 / 2 ^ 26) = 9395241 / 2 ^ 26"
    by (subst double_eval [where e = "- 3"]) (simp_all add: round_half_even_def powr_neg_numeral)
  have ab: "double (16106127 / 2 ^ 28 + 13421773 / 2 ^ 24) = 230854495 / 2 ^ 28"
    by (subst double_eval [where e = "- 1"]) (simp_all add: round_half_even_def powr_neg_numeral)
  have abc: "double (230854495 / 2 ^ 28 + 9395241 / 2 ^ 26) = 268435459 / 2 ^ 28"
    by (subst double_eval [where e = 0]) (simp_all add: round_half_even_def powr_neg_numeral)
  have e: "double (3 * (268435459 / 2 ^ 28)) = 805306377 / 2 ^ 28"
    by (subst double_eval [where e = 1]) (simp_all add: round_half_even_def powr_neg_numeral)
  have m: "monospace 1 ''M'' = 1" "monospace 1 ''n'' = 1" "monospace 1 ''.'' = 1"
    by (simp_all add: monospace_def)
  have avg: "estimator_avg (monospace 1) None None = 268435459 / 2 ^ 28"
    by (simp only: estimator_avg_default m mult_1_right a b c ab abc)
  have l: "real (length ''abc'') = 3"
    by simp
  have est: "Typography_textWidthEstimator (monospace 1) None None ''abc'' = 805306377 / 2 ^ 28"
    by (simp only: textWidthEstimator_avg avg l e)
  have s1: "double (1080863910568919 / 2 ^ 54 + 3602879701896397 / 2 ^ 52) = 3873095679538627 / 2 ^ 52"
    by (subst double_eval [where e = "- 1"]) (simp_all add: round_half_even_def powr_neg_numeral)
  have s2: "double (3873095679538627 / 2 ^ 52 + 1261007895663739 / 2 ^ 53) = 1"
    by (subst double_eval [where e = 0]) (simp_all add: round_half_even_def powr_neg_numeral)
  have d: "double (1080863910568919 / 2 ^ 54) = 1080863910568919 / 2 ^ 54"
    "double (3602879701896397 / 2 ^ 52) = 3602879701896397 / 2 ^ 52"
    "double (1261007895663739 / 2 ^ 53) = 1261007895663739 / 2 ^ 53"
    using double_double [of "0.06"] double_double [of "0.8"] double_double [of "0.14"]
    by (simp_all only: double_006 double_08 double_014)
  have three: "double 3 = 3"
    using double_of_nat [of 3] by simp
  have spec: "specified_estimate (monospace 1) ''abc'' = 3"
    by (simp only: specified_estimate_def m l mult_1_right double_006 double_08 double_014
          d s1 s2 three)
  have exact: "real (length ''abc'')
       * (0.06 * monospace 1 ''M'' + 0.8 * monospace 1 ''n'' + 0.14 * monospace 1 ''.'') = 3"
    by (simp add: monospace_def)
  show ?thesis
    unfolding est spec exact by simp
qed

text \<open>
  C9, as amended. The estimate of the empty string is 0, and the estimate of a
  concatenation is the product of the sum of the two lengths with \<open>avg\<close>, rounded to
  a double: it depends on the two strings through their lengths only. It is the sum
  of the two estimates, as JavaScript adds them, where neither of the two products
  \<open>length s1 * avg\<close> and \<open>length s2 * avg\<close> is changed by the rounding.
\<close>

theorem textWidthEstimator_concat:
  "Typography_textWidthEstimator M samples distribution [] = 0
   \<and> Typography_textWidthEstimator M samples distribution (s1 @ s2)
       = double (real (length s1 + length s2) * estimator_avg M samples distribution)
   \<and> (double (real (length s1) * estimator_avg M samples distribution)
         = real (length s1) * estimator_avg M samples distribution
       \<and> double (real (length s2) * estimator_avg M samples distribution)
         = real (length s2) * estimator_avg M samples distribution
       \<longrightarrow> Typography_textWidthEstimator M samples distribution (s1 @ s2)
           = double (Typography_textWidthEstimator M samples distribution s1
                     + Typography_textWidthEstimator M samples distribution s2))"
proof (intro conjI impI)
  show "Typography_textWidthEstimator M samples distribution [] = 0"
    by (simp add: textWidthEstimator_avg double_0)
  show "Typography_textWidthEstimator M samples distribution (s1 @ s2)
       = double (real (length s1 + length s2) * estimator_avg M samples distribution)"
    by (simp add: textWidthEstimator_avg)
  assume "double (real (length s1) * estimator_avg M samples distribution)
         = real (length s1) * estimator_avg M samples distribution
       \<and> double (real (length s2) * estimator_avg M samples distribution)
         = real (length s2) * estimator_avg M samples distribution"
  then show "Typography_textWidthEstimator M samples distribution (s1 @ s2)
           = double (Typography_textWidthEstimator M samples distribution s1
                     + Typography_textWidthEstimator M samples distribution s2)"
    by (simp add: textWidthEstimator_avg distrib_right)
qed

theorem textWidthEstimator_concat_witness:
  "estimator_avg (monospace 1) None None = 268435459 / 2 ^ 28
   \<and> double (real (length ''a'') * estimator_avg (monospace 1) None None)
       = real (length ''a'') * estimator_avg (monospace 1) None None
   \<and> double (real (length ''bc'') * estimator_avg (monospace 1) None None)
       = real (length ''bc'') * estimator_avg (monospace 1) None None
   \<and> Typography_textWidthEstimator (monospace 1) None None (''a'' @ ''bc'') = 805306377 / 2 ^ 28
   \<and> Typography_textWidthEstimator (monospace 1) None None (''a'' @ ''bc'')
       = double (Typography_textWidthEstimator (monospace 1) None None ''a''
                 + Typography_textWidthEstimator (monospace 1) None None ''bc'')"
proof -
  have a: "double (16106127 / 2 ^ 28) = 16106127 / 2 ^ 28"
    by (subst double_eval [where e = "- 5"]) (simp_all add: round_half_even_def powr_neg_numeral)
  have b: "double (13421773 / 2 ^ 24) = 13421773 / 2 ^ 24"
    by (subst double_eval [where e = "- 1"]) (simp_all add: round_half_even_def powr_neg_numeral)
  have c: "double (9395241 / 2 ^ 26) = 9395241 / 2 ^ 26"
    by (subst double_eval [where e = "- 3"]) (simp_all add: round_half_even_def powr_neg_numeral)
  have ab: "double (16106127 / 2 ^ 28 + 13421773 / 2 ^ 24) = 230854495 / 2 ^ 28"
    by (subst double_eval [where e = "- 1"]) (simp_all add: round_half_even_def powr_neg_numeral)
  have abc: "double (230854495 / 2 ^ 28 + 9395241 / 2 ^ 26) = 268435459 / 2 ^ 28"
    by (subst double_eval [where e = 0]) (simp_all add: round_half_even_def powr_neg_numeral)
  have e1: "double (268435459 / 2 ^ 28) = 268435459 / 2 ^ 28"
    by (subst double_eval [where e = 0]) (simp_all add: round_half_even_def powr_neg_numeral)
  have e2: "double (2 * (268435459 / 2 ^ 28)) = 2 * (268435459 / 2 ^ 28)"
    by (subst double_eval [where e = 1]) (simp_all add: round_half_even_def powr_neg_numeral)
  have e3: "double (3 * (268435459 / 2 ^ 28)) = 805306377 / 2 ^ 28"
    by (subst double_eval [where e = 1]) (simp_all add: round_half_even_def powr_neg_numeral)
  have m: "monospace 1 ''M'' = 1" "monospace 1 ''n'' = 1" "monospace 1 ''.'' = 1"
    by (simp_all add: monospace_def)
  have avg: "estimator_avg (monospace 1) None None = 268435459 / 2 ^ 28"
    by (simp only: estimator_avg_default m mult_1_right a b c ab abc)
  have l: "real (length ''a'') = 1" "real (length ''bc'') = 2" "real (length (''a'' @ ''bc'')) = 3"
    by simp_all
  have x1: "double (real (length ''a'') * estimator_avg (monospace 1) None None)
       = real (length ''a'') * estimator_avg (monospace 1) None None"
    by (simp only: avg l mult_1 e1)
  have x2: "double (real (length ''bc'') * estimator_avg (monospace 1) None None)
       = real (length ''bc'') * estimator_avg (monospace 1) None None"
    by (simp only: avg l e2)
  have x3: "Typography_textWidthEstimator (monospace 1) None None (''a'' @ ''bc'')
      = 805306377 / 2 ^ 28"
    by (simp only: textWidthEstimator_avg avg l e3)
  from textWidthEstimator_concat [of "monospace 1" None None "''a''" "''bc''"] avg x1 x2 x3
  show ?thesis by blast
qed

text \<open>
  C9 as stated fails: the two sides round the same real number at different places.
  With the one sample \<open>x\<close> measured at 0.1 (the double \<open>3602879701896397 / 2 ^ 55\<close>) and the
  distribution \<open>[1]\<close>, \<open>avg\<close> is that double. The estimates of \<open>a\<close> and \<open>bbbbb\<close> are 0.1
  and 0.5 and add up to 0.6 (\<open>5404319552844595 / 2 ^ 53\<close>), and the estimate of
  \<open>abbbbb\<close> is 0.6000000000000001 (\<open>1351079888211149 / 2 ^ 51\<close>).
\<close>

theorem textWidthEstimator_not_additive:
  "Typography_textWidthEstimator (\<lambda>s. 3602879701896397 / 2 ^ 55) (Some [''x'']) (Some [1]) (''a'' @ ''bbbbb'')
     = 1351079888211149 / 2 ^ 51
   \<and> double (Typography_textWidthEstimator (\<lambda>s. 3602879701896397 / 2 ^ 55) (Some [''x'']) (Some [1]) ''a''
             + Typography_textWidthEstimator (\<lambda>s. 3602879701896397 / 2 ^ 55) (Some [''x'']) (Some [1]) ''bbbbb'')
     = 5404319552844595 / 2 ^ 53
   \<and> Typography_textWidthEstimator (\<lambda>s. 3602879701896397 / 2 ^ 55) (Some [''x'']) (Some [1]) (''a'' @ ''bbbbb'')
       \<noteq> double (Typography_textWidthEstimator (\<lambda>s. 3602879701896397 / 2 ^ 55) (Some [''x'']) (Some [1]) ''a''
                 + Typography_textWidthEstimator (\<lambda>s. 3602879701896397 / 2 ^ 55) (Some [''x'']) (Some [1]) ''bbbbb'')
   \<and> Typography_textWidthEstimator (\<lambda>s. 3602879701896397 / 2 ^ 55) (Some [''x'']) (Some [1]) (''a'' @ ''bbbbb'')
       \<noteq> Typography_textWidthEstimator (\<lambda>s. 3602879701896397 / 2 ^ 55) (Some [''x'']) (Some [1]) ''a''
           + Typography_textWidthEstimator (\<lambda>s. 3602879701896397 / 2 ^ 55) (Some [''x'']) (Some [1]) ''bbbbb''"
proof -
  have one: "single 1 = 1"
    by (subst single_eval [where e = 0]) (simp_all add: round_half_even_def powr_neg_numeral)
  have e1: "double (3602879701896397 / 2 ^ 55) = 3602879701896397 / 2 ^ 55"
    by (subst double_eval [where e = "- 4"]) (simp_all add: round_half_even_def powr_neg_numeral)
  have e5: "double (5 * (3602879701896397 / 2 ^ 55)) = 1 / 2 ^ 1"
    by (subst double_eval [where e = "- 1"]) (simp_all add: round_half_even_def powr_neg_numeral)
  have e6: "double (6 * (3602879701896397 / 2 ^ 55)) = 1351079888211149 / 2 ^ 51"
    by (subst double_eval [where e = "- 1"]) (simp_all add: round_half_even_def powr_neg_numeral)
  have sm: "double (3602879701896397 / 2 ^ 55 + 1 / 2 ^ 1) = 5404319552844595 / 2 ^ 53"
    by (subst double_eval [where e = "- 1"]) (simp_all add: round_half_even_def powr_neg_numeral)
  have avg: "estimator_avg (\<lambda>s. 3602879701896397 / 2 ^ 55) (Some [''x'']) (Some [1]) = 3602879701896397 / 2 ^ 55"
    by (simp only: estimator_avg_def Let_def option.case Pt_def list.map one dot_def zip.simps
          list.case foldl.simps prod.case mult_1 add_0 e1)
  have l: "real (length ''a'') = 1" "real (length ''bbbbb'') = 5"
    "real (length (''a'' @ ''bbbbb'')) = 6"
    by simp_all
  have x1: "Typography_textWidthEstimator (\<lambda>s. 3602879701896397 / 2 ^ 55) (Some [''x'']) (Some [1]) ''a'' = 3602879701896397 / 2 ^ 55"
    by (simp only: textWidthEstimator_avg avg l mult_1 e1)
  have x5: "Typography_textWidthEstimator (\<lambda>s. 3602879701896397 / 2 ^ 55) (Some [''x'']) (Some [1]) ''bbbbb'' = 1 / 2 ^ 1"
    by (simp only: textWidthEstimator_avg avg l e5)
  have x6: "Typography_textWidthEstimator (\<lambda>s. 3602879701896397 / 2 ^ 55) (Some [''x'']) (Some [1]) (''a'' @ ''bbbbb'') = 1351079888211149 / 2 ^ 51"
    by (simp only: textWidthEstimator_avg avg l e6)
  show ?thesis
    unfolding x1 x5 x6 sm by simp
qed

section \<open>Properties of SVGForm\<close>

subsection \<open>Auxiliary facts\<close>

lemma ctx_drawn: "ctx (snd (drawn s r)) = ctx s"
  by (simp add: drawn_def split: prod.splits sum.splits)

lemma ctx_nextID:
  "ctx (snd (form_nextID s)) =
     (ctx s)\<lparr>groupCount := groupCount (ctx s) + 1,
              currentID := groupID (ctx s) @ ''-'' @ show_nat (groupCount (ctx s) + 1)\<rparr>"
  by (simp add: form_nextID_def Let_def)

lemma ctx_form_draw: "ctx (snd (form_draw K call s)) = ctx (snd (form_nextID s))"
  by (cases call)
     (simp_all add: form_point_def form_circle_def form_arc_def form_square_def form_line_def
        form_polygon_def form_rect_def form_text_def Let_def ctx_drawn)

lemma and_then_None:
  assumes "fst (and_then f g s) = None"
  shows "fst (f s) = None \<and> and_then f g s = g (snd (f s))"
  using assms by (cases "f s") (auto simp: and_then_def split: option.splits)

lemma styleTo_None:
  assumes "fst (form_styleTo k v s) = None"
  shows "style (ctx (snd (form_styleTo k v s))) = assign (style (ctx s)) k v"
  using assms by (simp add: form_styleTo_def split: if_splits)

lemma skip_style: "style (ctx (snd (skip s))) = style (ctx s)"
  by (simp add: skip_def)

lemma fill_colour_None:
  assumes "fst (form_fill (Str c) s) = None"
  shows "style (ctx (snd (form_fill (Str c) s)))
           = assign (assign (style (ctx s)) ''filled'' (Bool True)) ''fill'' (Str c)"
proof -
  let ?f = "form_styleTo ''filled'' (Bool True)" and ?g = "form_styleTo ''fill'' (Str c)"
  have eq: "form_fill (Str c) s = and_then ?f ?g s"
    by (simp add: form_fill_def)
  from assms eq and_then_None [of ?f ?g s]
  have 1: "fst (?f s) = None" and 2: "and_then ?f ?g s = ?g (snd (?f s))"
    by simp_all
  from assms eq 2 have 3: "fst (?g (snd (?f s))) = None"
    by simp
  show ?thesis
    by (simp add: eq 2 styleTo_None [OF 3] styleTo_None [OF 1])
qed

lemma stroke_colour_width_None:
  assumes "fst (form_stroke (Str c) (Num x) Undefined Undefined s) = None" and "x \<noteq> 0"
  shows "style (ctx (snd (form_stroke (Str c) (Num x) Undefined Undefined s)))
           = assign (assign (assign (style (ctx s)) ''stroked'' (Bool True)) ''stroke'' (Str c))
               ''stroke-width'' (Num x)"
proof -
  let ?f = "form_styleTo ''stroked'' (Bool True)" and ?g = "form_styleTo ''stroke'' (Str c)"
    and ?h = "form_styleTo ''stroke-width'' (Num x)"
  have skips: "and_then skip skip = skip"
    by (rule ext) (simp add: and_then_def skip_def)
  have right: "and_then ?h skip = ?h"
    by (rule ext) (simp add: and_then_def skip_def split: prod.splits option.splits)
  have eq: "form_stroke (Str c) (Num x) Undefined Undefined s = and_then ?f (and_then ?g ?h) s"
    using assms(2) by (simp add: form_stroke_def skips right)
  from assms(1) eq and_then_None [of ?f "and_then ?g ?h" s]
  have 1: "fst (?f s) = None" and 2: "and_then ?f (and_then ?g ?h) s = and_then ?g ?h (snd (?f s))"
    by simp_all
  from assms(1) eq 2 have "fst (and_then ?g ?h (snd (?f s))) = None"
    by simp
  from and_then_None [OF this]
  have 3: "fst (?g (snd (?f s))) = None"
    and 4: "and_then ?g ?h (snd (?f s)) = ?h (snd (?g (snd (?f s))))"
    by simp_all
  from assms(1) eq 2 4 have 5: "fst (?h (snd (?g (snd (?f s))))) = None"
    by simp
  show ?thesis
    by (simp add: eq 2 4 styleTo_None [OF 5] styleTo_None [OF 3] styleTo_None [OF 1])
qed

lemma form_text_ctx: "ctx (snd (form_text K pt txt s)) = ctx (snd (form_nextID s))"
  by (simp add: form_text_def Let_def ctx_drawn)

lemma fill_stroke_text_style:
  assumes "fst (and_then (form_fill (Str a))
                 (and_then (form_stroke (Str b) (Num x) Undefined Undefined)
                           (form_text K pt txt)) s) = None"
    and "x \<noteq> 0"
  shows "style (ctx (snd (and_then (form_fill (Str a))
                 (and_then (form_stroke (Str b) (Num x) Undefined Undefined)
                           (form_text K pt txt)) s)))
    = assign (assign (assign (assign (assign (style (ctx s))
        ''filled'' (Bool True)) ''fill'' (Str a))
        ''stroked'' (Bool True)) ''stroke'' (Str b))
        ''stroke-width'' (Num x)"
proof -
  let ?f = "form_fill (Str a)"
    and ?g = "form_stroke (Str b) (Num x) Undefined Undefined"
    and ?h = "form_text K pt txt"
  from assms(1) and_then_None [of ?f "and_then ?g ?h" s]
  have 1: "fst (?f s) = None" and 2: "and_then ?f (and_then ?g ?h) s = and_then ?g ?h (snd (?f s))"
    by simp_all
  from assms(1) 2 have "fst (and_then ?g ?h (snd (?f s))) = None"
    by simp
  from and_then_None [OF this]
  have 3: "fst (?g (snd (?f s))) = None"
    and 4: "and_then ?g ?h (snd (?f s)) = ?h (snd (?g (snd (?f s))))"
    by simp_all
  have "style (ctx (snd (and_then ?f (and_then ?g ?h) s))) = style (ctx (snd (?g (snd (?f s)))))"
    by (simp add: 2 4 form_text_ctx ctx_nextID)
  also have "\<dots> = assign (assign (assign (style (ctx (snd (?f s)))) ''stroked'' (Bool True))
                      ''stroke'' (Str b)) ''stroke-width'' (Num x)"
    by (rule stroke_colour_width_None [OF 3 assms(2)])
  finally show ?thesis
    by (simp add: fill_colour_None [OF 1])
qed

lemma log_style:
  assumes "fst (form_log K txt s) = None"
  shows "style (ctx (snd (form_log K txt s)))
    = assign (assign (assign (assign (assign (style (ctx s))
        ''filled'' (Bool True)) ''fill'' (Str ''#000''))
        ''stroked'' (Bool True)) ''stroke'' (Str ''#fff''))
        ''stroke-width'' (Num 0.5)"
  using assms unfolding form_log_def
  by (rule fill_stroke_text_style) simp

lemma map_of_assign:
  "k \<noteq> ''__proto__'' \<Longrightarrow> map_of (assign obj k v) = (map_of obj)(k \<mapsto> v)"
  by (simp add: assign_def update_conv')

lemma started_form_simps:
  "ctx started_form =
     \<lparr>group = Some 0, groupID = ''pts_svg_0'', groupCount = 0, currentID = ''pts0'',
      currentClass = [], style = style_literal, font = ''11px sans-serif'',
      fontSize = 11, fontFamily = ''sans-serif''\<rparr>"
  "world started_form = \<lparr>document = [svg_root], static_domID = 0, static_groupID = 1\<rparr>"
  by (simp_all add: started_form_def new_form_def form_start_def SVGForm_new_def show_nat.simps digit_def)

lemma styleTo_defined:
  "\<not> is_undefined (style (ctx s)) k \<Longrightarrow>
   form_styleTo k v s = (None, s\<lparr>ctx := (ctx s)\<lparr>style := assign (style (ctx s)) k v\<rparr>\<rparr>)"
  by (simp add: form_styleTo_def)

lemma is_undefined_assign:
  "k' \<noteq> ''__proto__'' \<Longrightarrow> k \<noteq> k' \<Longrightarrow> is_undefined (assign obj k' v) k = is_undefined obj k"
  by (simp add: is_undefined_def map_of_assign)

lemma ctx_element_node:
  "group c = Some g \<Longrightarrow> \<exists>elem w1. ctx_element c name w = (Inr elem, w1)"
  by (simp add: ctx_element_def svgElement_def Let_def split: option.splits)

lemma style_returns:
  "map_of styles ''hasOwnProperty'' = None \<Longrightarrow> \<exists>w'. SVGForm_style K elem styles w = (Inr elem, w')"
  by (simp add: SVGForm_style_def)

lemma form_text_returns:
  assumes "group (ctx s) = Some g" and "map_of (style (ctx s)) ''hasOwnProperty'' = None"
  shows "fst (form_text K pt txt s) = None"
proof -
  let ?s1 = "snd (form_nextID s)"
  have g: "group (ctx ?s1) = Some g" and h: "map_of (style (ctx ?s1)) ''hasOwnProperty'' = None"
    using assms by (simp_all add: ctx_nextID)
  from ctx_element_node [OF g] obtain elem w1
    where e: "ctx_element (ctx ?s1) ''text'' (world ?s1) = (Inr elem, w1)"
    by blast
  from style_returns [OF h] obtain w'
    where "SVGForm_text K (ctx ?s1) pt txt (world ?s1) = (Inr elem, w')"
    unfolding SVGForm_text_def Let_def e by (simp only: prod.case sum.case) blast
  then show ?thesis
    by (simp add: form_text_def Let_def drawn_def)
qed

lemma fill_stroke_text_returns:
  assumes "group (ctx s) = Some g"
    and "map_of (style (ctx s)) ''hasOwnProperty'' = None"
    and "\<not> is_undefined (style (ctx s)) ''filled''"
    and "\<not> is_undefined (style (ctx s)) ''fill''"
    and "\<not> is_undefined (style (ctx s)) ''stroked''"
    and "\<not> is_undefined (style (ctx s)) ''stroke''"
    and "\<not> is_undefined (style (ctx s)) ''stroke-width''"
    and "x \<noteq> 0"
  shows "fst (and_then (form_fill (Str a))
                 (and_then (form_stroke (Str b) (Num x) Undefined Undefined)
                           (form_text K pt txt)) s) = None"
proof -
  define st where "st = style (ctx s)"
  define s2 where "s2 = s\<lparr>ctx := (ctx s)\<lparr>style := assign (assign st ''filled'' (Bool True)) ''fill'' (Str a)\<rparr>\<rparr>"
  define s5 where "s5 = s\<lparr>ctx := (ctx s)\<lparr>style :=
      assign (assign (assign (assign (assign st ''filled'' (Bool True)) ''fill'' (Str a))
        ''stroked'' (Bool True)) ''stroke'' (Str b)) ''stroke-width'' (Num x)\<rparr>\<rparr>"
  have fill: "form_fill (Str a) s = (None, s2)"
    using assms(3,4)
    by (simp add: form_fill_def and_then_def styleTo_defined is_undefined_assign st_def s2_def)
  have stroke: "form_stroke (Str b) (Num x) Undefined Undefined s2 = (None, s5)"
    using assms(5,6,7,8)
    by (simp add: form_stroke_def and_then_def skip_def styleTo_defined is_undefined_assign
        st_def s2_def s5_def)
  have "group (ctx s5) = Some g" and "map_of (style (ctx s5)) ''hasOwnProperty'' = None"
    using assms(1,2) by (simp_all add: s5_def st_def map_of_assign)
  then have "fst (form_text K pt txt s5) = None"
    by (rule form_text_returns)
  then show ?thesis
    by (simp add: and_then_def fill stroke)
qed

lemma log_returns:
  assumes "group (ctx s) = Some g"
    and "map_of (style (ctx s)) ''hasOwnProperty'' = None"
    and "\<not> is_undefined (style (ctx s)) ''filled''"
    and "\<not> is_undefined (style (ctx s)) ''fill''"
    and "\<not> is_undefined (style (ctx s)) ''stroked''"
    and "\<not> is_undefined (style (ctx s)) ''stroke''"
    and "\<not> is_undefined (style (ctx s)) ''stroke-width''"
  shows "fst (form_log K txt s) = None"
  unfolding form_log_def
  by (rule fill_stroke_text_returns [OF assms]) simp

lemma started_form_style:
  "map_of (style (ctx started_form)) ''hasOwnProperty'' = None"
  "\<not> is_undefined (style (ctx started_form)) ''filled''"
  "\<not> is_undefined (style (ctx started_form)) ''fill''"
  "\<not> is_undefined (style (ctx started_form)) ''stroked''"
  "\<not> is_undefined (style (ctx started_form)) ''stroke''"
  "\<not> is_undefined (style (ctx started_form)) ''stroke-width''"
  by (simp_all add: started_form_simps style_literal_def is_undefined_def)

subsection \<open>Auxiliary facts about the document\<close>

lemma first_index_Some:
  "first_index P xs = Some n \<Longrightarrow> n < length xs \<and> P (xs ! n)"
  by (induction xs arbitrary: n) (auto split: if_splits)

lemma first_index_None:
  "first_index P xs = None \<Longrightarrow> n < length xs \<Longrightarrow> \<not> P (xs ! n)"
  by (induction xs arbitrary: n) (auto split: if_splits simp: nth_Cons')

lemma length_setAttribute [simp]: "length (setAttribute el k v d) = length d"
  by (simp add: setAttribute_def)

lemma nth_setAttribute_other [simp]: "j \<noteq> el \<Longrightarrow> setAttribute el k v d ! j = d ! j"
  by (simp add: setAttribute_def)

lemma nth_setAttribute_same [simp]:
  "el < length d \<Longrightarrow>
   setAttribute el k v d ! el = (d ! el)\<lparr>attributes := AList.update k v (attributes (d ! el))\<rparr>"
  by (simp add: setAttribute_def)

lemma length_setAttr [simp]: "length (setAttr ns el data d) = length d"
proof -
  have "length (fold (\<lambda>(k, v). setAttribute el k (to_string ns v)) data d) = length d"
    by (induction data arbitrary: d) (simp_all add: split_beta)
  then show ?thesis by (simp add: setAttr_def)
qed

lemma nth_setAttr_other [simp]: "j \<noteq> el \<Longrightarrow> setAttr ns el data d ! j = d ! j"
proof -
  assume "j \<noteq> el"
  then have "fold (\<lambda>(k, v). setAttribute el k (to_string ns v)) data d ! j = d ! j"
    by (induction data arbitrary: d) (simp_all add: split_beta)
  then show ?thesis by (simp add: setAttr_def)
qed

lemma setAttr_Nil [simp]: "setAttr ns el [] d = d"
  by (simp add: setAttr_def)

lemma setAttr_Cons:
  "setAttr ns el ((k, v) # data) d = setAttr ns el data (setAttribute el k (to_string ns v) d)"
  by (simp add: setAttr_def)

lemma tagName_setAttr [simp]: "el < length d \<Longrightarrow> tagName (setAttr ns el data d ! el) = tagName (d ! el)"
  by (induction data arbitrary: d) (auto simp: setAttr_Cons)

lemma textContent_setAttr [simp]:
  "el < length d \<Longrightarrow> textContent (setAttr ns el data d ! el) = textContent (d ! el)"
  by (induction data arbitrary: d) (auto simp: setAttr_Cons)

lemma parentNode_setAttr [simp]:
  "el < length d \<Longrightarrow> parentNode (setAttr ns el data d ! el) = parentNode (d ! el)"
  by (induction data arbitrary: d) (auto simp: setAttr_Cons)

lemma attributes_setAttr:
  "el < length d \<Longrightarrow>
   attributes (setAttr ns el data d ! el)
     = fold (\<lambda>kv. AList.update (fst kv) (to_string ns (snd kv))) data (attributes (d ! el))"
  by (induction data arbitrary: d) (auto simp: setAttr_Cons)

text \<open>What \<open>svgElement\<close> returns for a parent that is a node.\<close>

lemma svgElement_node:
  assumes "svgElement (Some p) name i d = (r, d')"
  shows "\<exists>elem. r = Inr elem \<and> elem < length d'
           \<and> map_of (attributes (d' ! elem)) ''id'' = Some i
           \<and> (case querySelector_id d i of
                 Some e \<Rightarrow> elem = e \<and> d' = d
               | None \<Rightarrow> elem = length d
                   \<and> d' = d @ [\<lparr>tagName = name, attributes = [(''id'', i)], parentNode = p,
                                 textContent = []\<rparr>])"
proof (cases "querySelector_id d i")
  case None
  with assms show ?thesis
    by (auto simp: svgElement_def)
next
  case (Some e)
  then have "e < length d \<and> map_of (attributes (d ! e)) ''id'' = Some i"
    unfolding querySelector_id_def by (rule first_index_Some)
  with assms Some show ?thesis
    by (auto simp: svgElement_def)
qed

lemma svgElement_Inr:
  assumes "svgElement parent name i d = (Inr elem, d')"
  shows "elem < length d' \<and> length d \<le> length d'"
  using assms
  by (auto simp: svgElement_def querySelector_id_def split: option.splits dest: first_index_Some)

lemma ctx_element_Inr:
  assumes "ctx_element c name w = (Inr elem, w1)"
  shows "elem < length (document w1)"
proof -
  obtain r d' where sv: "svgElement (group c) name (fst (SVGForm_getID c w))
      (document (snd (SVGForm_getID c w))) = (r, d')"
    by (cases "svgElement (group c) name (fst (SVGForm_getID c w))
      (document (snd (SVGForm_getID c w)))")
  with assms have "r = Inr elem" and "document w1 = d'"
    by (auto simp: ctx_element_def Let_def)
  with sv svgElement_Inr show ?thesis by blast
qed

lemma style_Inr:
  assumes "SVGForm_style K elem styles w = (Inr x, w')"
  shows "x = elem \<and> document w' = setAttr (numToString K) elem
           [(''style'', Str (join '';'' (style_list (numToString K) styles)))] (document w)"
  using assms by (auto simp: SVGForm_style_def split: option.splits)

lemma arc_attribute_d:
  assumes "SVGForm_arc K c pt radius startAngle endAngle cc w = (Inr elem, w')"
  shows "map_of (attributes (document w' ! elem)) ''d''
           = Some (arc_d K pt radius startAngle endAngle cc)"
proof -
  obtain r w1 where ce: "ctx_element c ''path'' w = (r, w1)"
    by (cases "ctx_element c ''path'' w")
  with assms obtain el where r: "r = Inr el"
    by (cases r) (auto simp: SVGForm_arc_def)
  from ce r have valid: "el < length (document w1)"
    by (simp add: ctx_element_Inr)
  let ?w2 = "w1\<lparr>document := setAttr (numToString K) el
         [(''d'', Str (arc_d K pt radius startAngle endAngle cc)),
          (''class'', Str (''pts-svgform pts-arc '' @ currentClass c))] (document w1)\<rparr>"
  from assms ce r have "SVGForm_style K el (style c) ?w2 = (Inr elem, w')"
    by (simp add: SVGForm_arc_def)
  from style_Inr [OF this] valid show ?thesis
    by (simp add: attributes_setAttr update_conv')
qed

lemma arc_returns:
  assumes "group c = Some g" and "map_of (style c) ''hasOwnProperty'' = None"
  shows "\<exists>elem w'. SVGForm_arc K c pt radius startAngle endAngle cc w = (Inr elem, w')"
proof -
  from ctx_element_node [OF assms(1)] obtain el w1
    where "ctx_element c ''path'' w = (Inr el, w1)"
    by blast
  with style_returns [OF assms(2)] show ?thesis
    unfolding SVGForm_arc_def by (simp only: prod.case sum.case) blast
qed

lemma sample_numbers:
  "numToString sample_collaborators 10 = ''10''"
  "numToString sample_collaborators 0 = ''0''"
  "numToString sample_collaborators (- 10) = ''-10''"
  "numToString sample_collaborators 1 = ''1''"
  "numToString sample_collaborators 2 = ''2''"
  "numToString sample_collaborators (1 / 2) = ''0.5''"
  by (simp_all add: sample_collaborators_def show_decimal_def Let_def show_nat.simps digit_def)

lemma document_getID [simp]: "document (snd (SVGForm_getID c w)) = document w"
  by (simp add: SVGForm_getID_def)

lemma ctx_element_no_node:
  "group c = None \<Longrightarrow>
   ctx_element c name w
     = (Inl (Error ''parent is not a valid DOM element''), snd (SVGForm_getID c w))"
  by (simp add: ctx_element_def svgElement_def Let_def)

lemma ctx_element_existing:
  assumes "group c = Some g"
    and "querySelector_id (document w) (fst (SVGForm_getID c w)) = Some e"
  shows "ctx_element c name w = (Inr e, snd (SVGForm_getID c w))"
    and "e < length (document w)"
    and "map_of (attributes (document w ! e)) ''id'' = Some (fst (SVGForm_getID c w))"
proof -
  show "ctx_element c name w = (Inr e, snd (SVGForm_getID c w))"
    using assms by (simp add: ctx_element_def svgElement_def Let_def)
  from assms(2) show "e < length (document w)"
    and "map_of (attributes (document w ! e)) ''id'' = Some (fst (SVGForm_getID c w))"
    unfolding querySelector_id_def by (auto dest: first_index_Some)
qed

lemma ctx_element_created:
  assumes "group c = Some g"
    and "querySelector_id (document w) (fst (SVGForm_getID c w)) = None"
  shows "ctx_element c name w
    = (Inr (length (document w)),
       (snd (SVGForm_getID c w))\<lparr>document := document w @
          [\<lparr>tagName = name, attributes = [(''id'', fst (SVGForm_getID c w))], parentNode = g,
            textContent = []\<rparr>]\<rparr>)"
  using assms by (simp add: ctx_element_def svgElement_def Let_def)

lemma style_own:
  "map_of styles ''hasOwnProperty'' = None \<Longrightarrow>
   SVGForm_style K elem styles w
     = (Inr elem, w\<lparr>document := setAttr (numToString K) elem
          [(''style'', Str (join '';'' (style_list (numToString K) styles)))] (document w)\<rparr>)"
  by (simp add: SVGForm_style_def)

text \<open>The shape of a line of two points and of a polyline, once the element is there.\<close>

lemma line_two_on:
  assumes "length pts = 2" and "ctx_element c ''line'' w = (Inr elem, w1)"
    and "map_of (style c) ''hasOwnProperty'' = None"
  shows "SVGForm_line K c pts w
    = (Inr (Some elem),
       w1\<lparr>document := setAttr (numToString K) elem
            [(''style'', Str (join '';'' (style_list (numToString K) (style c))))]
            (setAttr (numToString K) elem
               [(''x1'', coord (pts ! 0) 0), (''y1'', coord (pts ! 0) 1),
                (''x2'', coord (pts ! 1) 0), (''y2'', coord (pts ! 1) 1),
                (''class'', Str (''pts-svgform pts-line '' @ currentClass c))]
               (document w1))\<rparr>)"
  using assms by (simp add: SVGForm_line_def checkSize_def style_own returned_def)

lemma poly_on:
  assumes "2 \<le> length pts"
    and "ctx_element c (if closePath then ''polygon'' else ''polyline'') w = (Inr elem, w1)"
    and "map_of (style c) ''hasOwnProperty'' = None"
  shows "SVGForm_poly K c pts closePath w
    = (Inr (Some elem),
       w1\<lparr>document := setAttr (numToString K) elem
            [(''style'', Str (join '';'' (style_list (numToString K) (style c))))]
            (setAttr (numToString K) elem
               [(''points'', Str (poly_points (numToString K) pts)),
                (''class'', Str (''pts-svgform pts-polygon '' @ currentClass c))]
               (document w1))\<rparr>)"
  using assms by (simp add: SVGForm_poly_def checkSize_def style_own returned_def)

lemma line_many: "2 < length pts \<Longrightarrow> SVGForm_line K c pts w = SVGForm_poly K c pts False w"
  by (simp add: SVGForm_line_def checkSize_def)

lemma line_few: "length pts < 2 \<Longrightarrow> SVGForm_line K c pts w = (Inr None, w)"
  by (simp add: SVGForm_line_def checkSize_def)

lemma line_no_node:
  assumes "2 \<le> length pts" and "group c = None"
  shows "SVGForm_line K c pts w
    = (Inl (Error ''parent is not a valid DOM element''), snd (SVGForm_getID c w))"
  using assms
  by (simp add: SVGForm_line_def SVGForm_poly_def checkSize_def ctx_element_no_node)


lemma line_attrs:
  fixes ns :: "real \<Rightarrow> string" and a b a' b' cv sv :: jsval
  assumes "el < length d"
  defines "d' \<equiv> setAttr ns el [(''style'', sv)]
            (setAttr ns el [(''x1'', a), (''y1'', b), (''x2'', a'), (''y2'', b'), (''class'', cv)] d)"
  shows "map_of (attributes (d' ! el)) ''x1'' = Some (to_string ns a)"
    and "map_of (attributes (d' ! el)) ''y1'' = Some (to_string ns b)"
    and "map_of (attributes (d' ! el)) ''x2'' = Some (to_string ns a')"
    and "map_of (attributes (d' ! el)) ''y2'' = Some (to_string ns b')"
    and "map_of (attributes (d' ! el)) ''id'' = map_of (attributes (d ! el)) ''id''"
  using assms(1) unfolding d'_def by (simp_all add: attributes_setAttr update_conv')

lemma poly_attrs:
  fixes ns :: "real \<Rightarrow> string" and a cv sv :: jsval
  assumes "el < length d"
  defines "d' \<equiv> setAttr ns el [(''style'', sv)] (setAttr ns el [(''points'', a), (''class'', cv)] d)"
  shows "map_of (attributes (d' ! el)) ''points'' = Some (to_string ns a)"
    and "map_of (attributes (d' ! el)) ''id'' = map_of (attributes (d ! el)) ''id''"
  using assms(1) unfolding d'_def by (simp_all add: attributes_setAttr update_conv')

lemma line_on_node:
  assumes len: "2 \<le> length pts" and g: "group c = Some g"
    and own: "map_of (style c) ''hasOwnProperty'' = None"
  shows "\<exists>elem w'. SVGForm_line K c pts w = (Inr (Some elem), w')
    \<and> elem < length (document w')
    \<and> map_of (attributes (document w' ! elem)) ''id'' = Some (fst (SVGForm_getID c w))
    \<and> (\<forall>j. j < length (document w) \<and> j \<noteq> elem \<longrightarrow> document w' ! j = document w ! j)
    \<and> (case querySelector_id (document w) (fst (SVGForm_getID c w)) of
          Some e \<Rightarrow> elem = e \<and> length (document w') = length (document w)
                     \<and> tagName (document w' ! elem) = tagName (document w ! e)
        | None \<Rightarrow> elem = length (document w) \<and> length (document w') = Suc (length (document w))
                     \<and> tagName (document w' ! elem)
                         = (if length pts = 2 then ''line'' else ''polyline''))
    \<and> (if length pts = 2
        then map_of (attributes (document w' ! elem)) ''x1''
               = Some (to_string (numToString K) (coord (pts ! 0) 0))
           \<and> map_of (attributes (document w' ! elem)) ''y1''
               = Some (to_string (numToString K) (coord (pts ! 0) 1))
           \<and> map_of (attributes (document w' ! elem)) ''x2''
               = Some (to_string (numToString K) (coord (pts ! 1) 0))
           \<and> map_of (attributes (document w' ! elem)) ''y2''
               = Some (to_string (numToString K) (coord (pts ! 1) 1))
        else map_of (attributes (document w' ! elem)) ''points''
               = Some (poly_points (numToString K) pts))"
proof -
  define i where "i = fst (SVGForm_getID c w)"
  define w0 where "w0 = snd (SVGForm_getID c w)"
  define name where "name = (if length pts = 2 then ''line'' else ''polyline'')"
  define sv where "sv = Str (join '';'' (style_list (numToString K) (style c)))"
  define D where "D = (\<lambda>el d.
    if length pts = 2
    then setAttr (numToString K) el [(''style'', sv)]
           (setAttr (numToString K) el
              [(''x1'', coord (pts ! 0) 0), (''y1'', coord (pts ! 0) 1),
               (''x2'', coord (pts ! 1) 0), (''y2'', coord (pts ! 1) 1),
               (''class'', Str (''pts-svgform pts-line '' @ currentClass c))] d)
    else setAttr (numToString K) el [(''style'', sv)]
           (setAttr (numToString K) el
              [(''points'', Str (poly_points (numToString K) pts)),
               (''class'', Str (''pts-svgform pts-polygon '' @ currentClass c))] d))"
  have shape: "SVGForm_line K c pts w = (Inr (Some el), w1\<lparr>document := D el (document w1)\<rparr>)"
    if "ctx_element c name w = (Inr el, w1)" for el w1
  proof (cases "length pts = 2")
    case True
    with that own show ?thesis
      by (simp add: line_two_on name_def D_def sv_def)
  next
    case False
    with len have many: "2 < length pts" by simp
    from that False have "ctx_element c (if False then ''polygon'' else ''polyline'') w = (Inr el, w1)"
      by (simp add: name_def)
    from poly_on [OF len this own] many False show ?thesis
      by (simp add: line_many D_def sv_def)
  qed
  have D_len [simp]: "length (D el d) = length d" for el d
    by (simp add: D_def)
  have D_other [simp]: "D el d ! j = d ! j" if "j \<noteq> el" for el d j
    using that by (simp add: D_def)
  have D_tag [simp]: "tagName (D el d ! el) = tagName (d ! el)" if "el < length d" for el d
    using that by (simp add: D_def)
  have D_id: "map_of (attributes (D el d ! el)) ''id'' = map_of (attributes (d ! el)) ''id''"
    if "el < length d" for el d
    using that by (simp add: D_def line_attrs poly_attrs)
  have D_geom: "if length pts = 2
        then map_of (attributes (D el d ! el)) ''x1''
               = Some (to_string (numToString K) (coord (pts ! 0) 0))
           \<and> map_of (attributes (D el d ! el)) ''y1''
               = Some (to_string (numToString K) (coord (pts ! 0) 1))
           \<and> map_of (attributes (D el d ! el)) ''x2''
               = Some (to_string (numToString K) (coord (pts ! 1) 0))
           \<and> map_of (attributes (D el d ! el)) ''y2''
               = Some (to_string (numToString K) (coord (pts ! 1) 1))
        else map_of (attributes (D el d ! el)) ''points''
               = Some (poly_points (numToString K) pts)"
    if "el < length d" for el d
    using that by (simp add: D_def line_attrs poly_attrs)
  show ?thesis
  proof (cases "querySelector_id (document w) i")
    case (Some e)
    note q = Some [unfolded i_def]
    note ex = ctx_element_existing(1) [OF g q, of name] ctx_element_existing(2,3) [OF g q]
    let ?w' = "(snd (SVGForm_getID c w))\<lparr>document := D e (document w)\<rparr>"
    show ?thesis
    proof (intro exI conjI)
      show "SVGForm_line K c pts w = (Inr (Some e), ?w')"
        using shape [OF ex(1)] by simp
      show "e < length (document ?w')"
        using ex(2) by simp
      show "map_of (attributes (document ?w' ! e)) ''id'' = Some (fst (SVGForm_getID c w))"
        using ex(2,3) by (simp add: D_id)
      show "\<forall>j. j < length (document w) \<and> j \<noteq> e \<longrightarrow> document ?w' ! j = document w ! j"
        by simp
      show "case querySelector_id (document w) (fst (SVGForm_getID c w)) of
          Some e' \<Rightarrow> e = e' \<and> length (document ?w') = length (document w)
                     \<and> tagName (document ?w' ! e) = tagName (document w ! e')
        | None \<Rightarrow> e = length (document w) \<and> length (document ?w') = Suc (length (document w))
                     \<and> tagName (document ?w' ! e)
                         = (if length pts = 2 then ''line'' else ''polyline'')"
        using ex(2) by (simp add: q)
      show "if length pts = 2
        then map_of (attributes (document ?w' ! e)) ''x1''
               = Some (to_string (numToString K) (coord (pts ! 0) 0))
           \<and> map_of (attributes (document ?w' ! e)) ''y1''
               = Some (to_string (numToString K) (coord (pts ! 0) 1))
           \<and> map_of (attributes (document ?w' ! e)) ''x2''
               = Some (to_string (numToString K) (coord (pts ! 1) 0))
           \<and> map_of (attributes (document ?w' ! e)) ''y2''
               = Some (to_string (numToString K) (coord (pts ! 1) 1))
        else map_of (attributes (document ?w' ! e)) ''points''
               = Some (poly_points (numToString K) pts)"
        using D_geom [OF ex(2)] by simp
    qed
  next
    case None
    note q = None [unfolded i_def]
    let ?new = "\<lparr>tagName = name, attributes = [(''id'', fst (SVGForm_getID c w))],
                  parentNode = g, textContent = []\<rparr>"
    let ?n = "length (document w)"
    let ?w' = "(snd (SVGForm_getID c w))\<lparr>document := D ?n (document w @ [?new])\<rparr>"
    have valid: "?n < length (document w @ [?new])"
      by simp
    show ?thesis
    proof (intro exI conjI)
      show "SVGForm_line K c pts w = (Inr (Some ?n), ?w')"
        using shape [OF ctx_element_created [OF g q, of name]] by simp
      show "?n < length (document ?w')"
        by simp
      show "map_of (attributes (document ?w' ! ?n)) ''id'' = Some (fst (SVGForm_getID c w))"
        by (simp add: D_id [OF valid])
      show "\<forall>j. j < length (document w) \<and> j \<noteq> ?n \<longrightarrow> document ?w' ! j = document w ! j"
        by (simp add: nth_append)
      have "tagName (D ?n (document w @ [?new]) ! ?n)
          = (if length pts = 2 then ''line'' else ''polyline'')"
        by (simp add: D_tag [OF valid] name_def)
      then show "case querySelector_id (document w) (fst (SVGForm_getID c w)) of
          Some e' \<Rightarrow> ?n = e' \<and> length (document ?w') = length (document w)
                     \<and> tagName (document ?w' ! ?n) = tagName (document w ! e')
        | None \<Rightarrow> ?n = length (document w) \<and> length (document ?w') = Suc (length (document w))
                     \<and> tagName (document ?w' ! ?n)
                         = (if length pts = 2 then ''line'' else ''polyline'')"
        by (simp add: q)
      show "if length pts = 2
        then map_of (attributes (document ?w' ! ?n)) ''x1''
               = Some (to_string (numToString K) (coord (pts ! 0) 0))
           \<and> map_of (attributes (document ?w' ! ?n)) ''y1''
               = Some (to_string (numToString K) (coord (pts ! 0) 1))
           \<and> map_of (attributes (document ?w' ! ?n)) ''x2''
               = Some (to_string (numToString K) (coord (pts ! 1) 0))
           \<and> map_of (attributes (document ?w' ! ?n)) ''y2''
               = Some (to_string (numToString K) (coord (pts ! 1) 1))
        else map_of (attributes (document ?w' ! ?n)) ''points''
               = Some (poly_points (numToString K) pts)"
        using D_geom [OF valid] by simp
    qed
  qed
qed

lemmas eval_draw =
  SVGForm_line_def SVGForm_poly_def checkSize_def ctx_element_def SVGForm_getID_def
  svgElement_def querySelector_id_def started_form_simps svg_root_def Let_def
  SVGForm_style_def style_literal_def returned_def setAttr_def setAttribute_def coord_def
  sample_numbers style_list_def style_entry_def member_truthy_def poly_points_def

lemma line_drawn_eq:
  "line_drawn =
     \<lparr>document =
        [svg_root,
         \<lparr>tagName = ''line'',
          attributes =
            [(''id'', ''pts0''), (''x1'', ''0''), (''y1'', ''0''), (''x2'', ''1''), (''y2'', ''1''),
             (''class'', ''pts-svgform pts-line ''),
             (''style'', ''fill: #f03;stroke: #fff;stroke-width: 1;stroke-linejoin: bevel;stroke-linecap: sqaure'')],
          parentNode = 0, textContent = []\<rparr>],
      static_domID = 0, static_groupID = 1\<rparr>"
  by (simp add: line_drawn_def eval_draw)

lemma new_form_simps:
  "group (ctx new_form) = None"
  "document (world new_form) = [svg_root]"
  by (simp_all add: new_form_def SVGForm_new_def)

subsection \<open>Auxiliary facts: the element a drawing function returns\<close>

lemma first_index_cong:
  assumes "length xs = length ys" and "\<And>j. j < length xs \<Longrightarrow> P (xs ! j) = P (ys ! j)"
  shows "first_index P xs = first_index P ys"
  using assms
proof (induction xs arbitrary: ys)
  case Nil
  then show ?case by simp
next
  case (Cons x xs)
  then obtain y ys' where ys: "ys = y # ys'" and len: "length xs = length ys'"
    by (cases ys) auto
  from Cons.prems(2) [of 0] ys have hd: "P x = P y"
    by simp
  have "P (xs ! j) = P (ys' ! j)" if "j < length xs" for j
    using Cons.prems(2) [of "Suc j"] that ys by simp
  with Cons.IH [OF len] have "first_index P xs = first_index P ys'"
    by blast
  with hd ys show ?case
    by simp
qed

lemma first_index_append_new:
  "first_index P xs = None \<Longrightarrow> P x \<Longrightarrow> first_index P (xs @ [x]) = Some (length xs)"
  by (induction xs) (auto split: if_splits)

lemma map_of_fold_update_other:
  "k \<notin> fst ` set data \<Longrightarrow>
   map_of (fold (\<lambda>kv. AList.update (fst kv) (f (snd kv))) data al) k = map_of al k"
  by (induction data arbitrary: al) (auto simp: update_conv')

lemma id_setAttr:
  assumes "el < length d" and "''id'' \<notin> fst ` set data"
  shows "map_of (attributes (setAttr ns el data d ! el)) ''id'' = map_of (attributes (d ! el)) ''id''"
  using assms by (simp add: attributes_setAttr map_of_fold_update_other)

lemma querySelector_setAttr:
  assumes "el < length d" and "''id'' \<notin> fst ` set data"
  shows "querySelector_id (setAttr ns el data d) i = querySelector_id d i"
  unfolding querySelector_id_def
proof (rule first_index_cong)
  show "length (setAttr ns el data d) = length d"
    by simp
  fix j
  assume "j < length (setAttr ns el data d)"
  show "(map_of (attributes (setAttr ns el data d ! j)) ''id'' = Some i)
      = (map_of (attributes (d ! j)) ''id'' = Some i)"
    using assms by (cases "j = el") (simp_all add: id_setAttr)
qed

lemma querySelector_ctx_element:
  assumes "ctx_element c name w = (Inr elem, w1)"
  shows "querySelector_id (document w1) (fst (SVGForm_getID c w)) = Some elem"
proof -
  from assms obtain g where g: "group c = Some g"
    by (cases "group c") (auto simp: ctx_element_no_node)
  let ?i = "fst (SVGForm_getID c w)"
  show ?thesis
  proof (cases "querySelector_id (document w) ?i")
    case None
    from ctx_element_created [OF g None, of name] assms
    have "elem = length (document w)"
      and "document w1 = document w @ [\<lparr>tagName = name, attributes = [(''id'', ?i)],
              parentNode = g, textContent = []\<rparr>]"
      by auto
    with None show ?thesis
      unfolding querySelector_id_def by (simp add: first_index_append_new)
  next
    case (Some e)
    from ctx_element_existing(1) [OF g Some, of name] assms
    have "elem = e" and "document w1 = document w"
      by auto
    with Some show ?thesis by simp
  qed
qed

text \<open>
  The common end of the static drawing functions: attributes other than the id are set
  on the element of the context, then the style.
\<close>

lemma styled_element:
  assumes ce: "ctx_element c name w = (Inr el, w1)"
    and noid: "''id'' \<notin> fst ` set data"
    and st: "SVGForm_style K el (style c)
              (w1\<lparr>document := setAttr (numToString K) el data (document w1)\<rparr>) = (Inr x, w')"
  shows "x = el"
    and "el < length (document w')"
    and "querySelector_id (document w') (fst (SVGForm_getID c w)) = Some el"
    and "map_of (attributes (document w' ! el)) ''style''
          = Some (join '';'' (style_list (numToString K) (style c)))"
proof -
  have valid: "el < length (document w1)"
    using ce by (rule ctx_element_Inr)
  from style_Inr [OF st]
  have x: "x = el"
    and doc: "document w' = setAttr (numToString K) el
        [(''style'', Str (join '';'' (style_list (numToString K) (style c))))]
        (setAttr (numToString K) el data (document w1))"
    by simp_all
  show "x = el" by (rule x)
  show "el < length (document w')"
    using valid by (simp add: doc)
  show "querySelector_id (document w') (fst (SVGForm_getID c w)) = Some el"
    using valid noid by (simp add: doc querySelector_setAttr querySelector_ctx_element [OF ce])
  show "map_of (attributes (document w' ! el)) ''style''
          = Some (join '';'' (style_list (numToString K) (style c)))"
    using valid by (simp add: doc attributes_setAttr update_conv')
qed

lemma querySelector_textContent:
  "querySelector_id (d[el := (d ! el)\<lparr>textContent := t\<rparr>]) i = querySelector_id d i"
  unfolding querySelector_id_def
proof (rule first_index_cong)
  show "length (d[el := (d ! el)\<lparr>textContent := t\<rparr>]) = length d"
    by simp
  fix j
  assume "j < length (d[el := (d ! el)\<lparr>textContent := t\<rparr>])"
  then show "(map_of (attributes (d[el := (d ! el)\<lparr>textContent := t\<rparr>] ! j)) ''id'' = Some i)
      = (map_of (attributes (d ! j)) ''id'' = Some i)"
    by (cases "j = el") simp_all
qed

lemma style_on_found:
  assumes "el < length d" and "querySelector_id d (fst (SVGForm_getID c w)) = Some el"
    and "SVGForm_style K el (style c) (w1\<lparr>document := d\<rparr>) = (Inr x, w')"
  shows "x = el \<and> drawn_with K c w el w'"
proof -
  from style_Inr [OF assms(3)]
  have x: "x = el"
    and doc: "document w' = setAttr (numToString K) el
        [(''style'', Str (join '';'' (style_list (numToString K) (style c))))] d"
    by simp_all
  show ?thesis
    using assms(1,2) x
    by (simp add: drawn_with_def doc querySelector_setAttr attributes_setAttr update_conv')
qed

lemma attrs_on_found:
  assumes "ctx_element c name w = (Inr el, w1)" and "''id'' \<notin> fst ` set data"
  shows "el < length (setAttr ns el data (document w1))"
    and "querySelector_id (setAttr ns el data (document w1)) (fst (SVGForm_getID c w)) = Some el"
  using ctx_element_Inr [OF assms(1)] assms(2)
  by (simp_all add: querySelector_setAttr querySelector_ctx_element [OF assms(1)])

lemma draw_tail:
  assumes "(case ctx_element c name w of
              (Inl e, w1) \<Rightarrow> (Inl e, w1)
            | (Inr el, w1) \<Rightarrow>
                SVGForm_style K el (style c)
                  (w1\<lparr>document := setAttr (numToString K) el data (document w1)\<rparr>))
           = (Inr elem, w')"
    and "''id'' \<notin> fst ` set data"
  shows "drawn_with K c w elem w'"
proof -
  obtain r w1 where ce: "ctx_element c name w = (r, w1)"
    by (cases "ctx_element c name w")
  with assms(1) obtain el where r: "r = Inr el"
    by (cases r) auto
  note ce = ce [unfolded r]
  from assms(1) ce
  have "SVGForm_style K el (style c)
          (w1\<lparr>document := setAttr (numToString K) el data (document w1)\<rparr>) = (Inr elem, w')"
    by simp
  with style_on_found attrs_on_found [OF ce assms(2)] show ?thesis
    by blast
qed

lemma returned_Some: "returned r = (Inr (Some elem), w') \<Longrightarrow> r = (Inr elem, w')"
  by (cases r) (auto simp: returned_def split: sum.splits)

lemma draw_tail_returned:
  assumes "(case ctx_element c name w of
              (Inl e, w1) \<Rightarrow> (Inl e, w1)
            | (Inr el, w1) \<Rightarrow>
                returned (SVGForm_style K el (style c)
                  (w1\<lparr>document := setAttr (numToString K) el data (document w1)\<rparr>)))
           = (Inr (Some elem), w')"
    and "''id'' \<notin> fst ` set data"
  shows "drawn_with K c w elem w'"
proof (rule draw_tail [OF _ assms(2)])
  obtain r w1 where ce: "ctx_element c name w = (r, w1)"
    by (cases "ctx_element c name w")
  with assms(1) obtain el where r: "r = Inr el"
    by (cases r) auto
  from assms(1) ce r
  show "(case ctx_element c name w of
              (Inl e, w1) \<Rightarrow> (Inl e, w1)
            | (Inr el, w1) \<Rightarrow>
                SVGForm_style K el (style c)
                  (w1\<lparr>document := setAttr (numToString K) el data (document w1)\<rparr>))
           = (Inr elem, w')"
    by (simp add: returned_Some)
qed

lemma circle_drawn:
  assumes "SVGForm_circle K c pt radius w = (Inr elem, w')"
  shows "drawn_with K c w elem w'"
  using assms unfolding SVGForm_circle_def Let_def by (rule draw_tail) simp

lemma square_drawn:
  assumes "SVGForm_square K c pt halfsize w = (Inr elem, w')"
  shows "drawn_with K c w elem w'"
  using assms unfolding SVGForm_square_def by (rule draw_tail) simp

lemma point_drawn:
  assumes "SVGForm_point K c pt radius shape w = (Inr elem, w')"
  shows "drawn_with K c w elem w'"
  using assms
  by (auto simp: SVGForm_point_def Let_def circle_drawn square_drawn split: if_splits)

lemma arc_drawn:
  assumes "SVGForm_arc K c pt radius startAngle endAngle cc w = (Inr elem, w')"
  shows "drawn_with K c w elem w'"
  using assms unfolding SVGForm_arc_def by (rule draw_tail) simp

lemma poly_drawn:
  assumes "SVGForm_poly K c pts closePath w = (Inr (Some elem), w')"
  shows "drawn_with K c w elem w'"
proof -
  from assms have "checkSize pts"
    by (auto simp: SVGForm_poly_def split: if_splits)
  with assms have "(case ctx_element c (if closePath then ''polygon'' else ''polyline'') w of
        (Inl e, w1) \<Rightarrow> (Inl e, w1)
      | (Inr el, w1) \<Rightarrow>
          returned (SVGForm_style K el (style c)
            (w1\<lparr>document := setAttr (numToString K) el
               [(''points'', Str (poly_points (numToString K) pts)),
                (''class'', Str (''pts-svgform pts-polygon '' @ currentClass c))]
               (document w1)\<rparr>))) = (Inr (Some elem), w')"
    by (simp add: SVGForm_poly_def)
  then show ?thesis
    by (rule draw_tail_returned) simp
qed

lemma line_drawn_with:
  assumes "SVGForm_line K c pts w = (Inr (Some elem), w')"
  shows "drawn_with K c w elem w'"
proof -
  from assms have size: "checkSize pts"
    by (auto simp: SVGForm_line_def split: if_splits)
  show ?thesis
  proof (cases "2 < length pts")
    case True
    with assms size show ?thesis
      by (simp add: SVGForm_line_def poly_drawn)
  next
    case False
    with assms size have "(case ctx_element c ''line'' w of
        (Inl e, w1) \<Rightarrow> (Inl e, w1)
      | (Inr el, w1) \<Rightarrow>
          returned (SVGForm_style K el (style c)
            (w1\<lparr>document := setAttr (numToString K) el
               [(''x1'', coord (pts ! 0) 0), (''y1'', coord (pts ! 0) 1),
                (''x2'', coord (pts ! 1) 0), (''y2'', coord (pts ! 1) 1),
                (''class'', Str (''pts-svgform pts-line '' @ currentClass c))]
               (document w1)\<rparr>))) = (Inr (Some elem), w')"
      by (simp add: SVGForm_line_def)
    then show ?thesis
      by (rule draw_tail_returned) simp
  qed
qed

lemma polygon_drawn:
  assumes "SVGForm_polygon K c pts w = (Inr (Some elem), w')"
  shows "drawn_with K c w elem w'"
  using assms by (simp add: SVGForm_polygon_def poly_drawn)

lemma rect_drawn:
  assumes "SVGForm_rect K c pts w = (Inr (Some elem), w')"
  shows "drawn_with K c w elem w'"
proof -
  from assms have "checkSize pts"
    by (auto simp: SVGForm_rect_def split: if_splits)
  with assms have "(case ctx_element c ''rect'' w of
        (Inl e, w1) \<Rightarrow> (Inl e, w1)
      | (Inr el, w1) \<Rightarrow>
          returned (SVGForm_style K el (style c)
            (w1\<lparr>document := setAttr (numToString K) el
               [(''x'', coord (fst (boundingBox K pts)) 0), (''y'', coord (fst (boundingBox K pts)) 1),
                (''width'', coord (rectangleSize K (boundingBox K pts)) 0),
                (''height'', coord (rectangleSize K (boundingBox K pts)) 1),
                (''class'', Str (''pts-svgform pts-rect '' @ currentClass c))]
               (document w1)\<rparr>))) = (Inr (Some elem), w')"
    unfolding SVGForm_rect_def Let_def by simp
  then show ?thesis
    by (rule draw_tail_returned) simp
qed

lemma text_drawn:
  assumes "SVGForm_text K c pt txt w = (Inr elem, w')"
  shows "drawn_with K c w elem w'"
proof -
  obtain r w1 where ce: "ctx_element c ''text'' w = (r, w1)"
    by (cases "ctx_element c ''text'' w")
  with assms obtain el where r: "r = Inr el"
    by (cases r) (auto simp: SVGForm_text_def)
  note ce = ce [unfolded r]
  let ?data = "[(''pointer-events'', Str ''none''),
                (''x'', coord pt 0), (''y'', coord pt 1), (''dx'', Num 0), (''dy'', Num 0),
                (''class'', Str (''pts-svgform pts-text '' @ currentClass c))]"
  let ?d1 = "setAttr (numToString K) el ?data (document w1)"
  let ?d2 = "?d1[el := (?d1 ! el)\<lparr>textContent := txt\<rparr>]"
  have noid: "''id'' \<notin> fst ` set ?data"
    by simp
  from assms ce have st: "SVGForm_style K el (style c) (w1\<lparr>document := ?d2\<rparr>) = (Inr elem, w')"
    by (simp add: SVGForm_text_def Let_def)
  have "el < length ?d2" and "querySelector_id ?d2 (fst (SVGForm_getID c w)) = Some el"
    using attrs_on_found [OF ce noid]
    by (simp_all only: querySelector_textContent length_list_update)
  from style_on_found [OF this st] show ?thesis
    by simp
qed

lemma drawn_None:
  assumes "fst (drawn s r) = None"
  obtains x w' where "r = (Inr x, w')" and "snd (drawn s r) = s\<lparr>world := w'\<rparr>"
  using assms by (cases r; cases "fst r") (auto simp: drawn_def)

lemma world_nextID [simp]: "world (snd (form_nextID s)) = world s"
  by (simp add: form_nextID_def Let_def)

lemma returned_Inr:
  "returned r = (Inr xo, w') \<Longrightarrow> \<exists>elem. xo = Some elem \<and> r = (Inr elem, w')"
  by (cases r) (auto simp: returned_def split: sum.splits)

lemma poly_returns_element:
  assumes "checkSize pts" and "SVGForm_poly K c pts closePath w = (Inr xo, w')"
  shows "\<exists>elem. xo = Some elem"
  using assms
  by (auto simp: SVGForm_poly_def split: prod.splits sum.splits dest: returned_Inr)

lemma line_returns_element:
  assumes "checkSize pts" and "SVGForm_line K c pts w = (Inr xo, w')"
  shows "\<exists>elem. xo = Some elem"
  using assms
  by (auto simp: SVGForm_line_def poly_returns_element
      split: if_splits prod.splits sum.splits dest: returned_Inr)

lemma rect_returns_element:
  assumes "checkSize pts" and "SVGForm_rect K c pts w = (Inr xo, w')"
  shows "\<exists>elem. xo = Some elem"
  using assms
  by (auto simp: SVGForm_rect_def Let_def split: prod.splits sum.splits dest: returned_Inr)

lemma form_draw_styled:
  assumes "fst (form_draw K call s) = None" and "draws_element call"
  shows "\<exists>elem. drawn_with K (ctx (snd (form_draw K call s))) (world s) elem
                  (world (snd (form_draw K call s)))"
proof -
  let ?s1 = "snd (form_nextID s)"
  have c: "ctx (snd (form_draw K call s)) = ctx ?s1"
    by (rule ctx_form_draw)
  show ?thesis
  proof (cases call)
    case (Point pt radius shape)
    with assms(1) have "fst (drawn ?s1 (SVGForm_point K (ctx ?s1) pt radius shape (world ?s1))) = None"
      by (simp add: form_point_def Let_def)
    then obtain x w' where "SVGForm_point K (ctx ?s1) pt radius shape (world ?s1) = (Inr x, w')"
      and "snd (drawn ?s1 (SVGForm_point K (ctx ?s1) pt radius shape (world ?s1))) = ?s1\<lparr>world := w'\<rparr>"
      by (rule drawn_None)
    with Point point_drawn [of K "ctx ?s1" pt radius shape "world ?s1" x w'] show ?thesis
      by (auto simp: c form_point_def Let_def)
  next
    case (Circle pts)
    from assms(1) Circle have len: "\<not> length pts < 2"
      by (auto simp: form_circle_def Let_def)
    let ?r = "SVGForm_circle K (ctx ?s1) (pts ! 0) (case pts ! 1 of [] \<Rightarrow> None | r # rs \<Rightarrow> Some r)
                (world ?s1)"
    from assms(1) Circle len have "fst (drawn ?s1 ?r) = None"
      by (simp add: form_circle_def Let_def)
    then obtain x w' where "?r = (Inr x, w')" and "snd (drawn ?s1 ?r) = ?s1\<lparr>world := w'\<rparr>"
      by (rule drawn_None)
    with Circle len circle_drawn [of K "ctx ?s1" "pts ! 0" "case pts ! 1 of [] \<Rightarrow> None | r # rs \<Rightarrow> Some r" "world ?s1" x w'] show ?thesis
      by (auto simp: c form_circle_def Let_def)
  next
    case (Arc pt radius startAngle endAngle cc)
    let ?r = "SVGForm_arc K (ctx ?s1) pt radius startAngle endAngle cc (world ?s1)"
    from assms(1) Arc have "fst (drawn ?s1 ?r) = None"
      by (simp add: form_arc_def Let_def)
    then obtain x w' where "?r = (Inr x, w')" and "snd (drawn ?s1 ?r) = ?s1\<lparr>world := w'\<rparr>"
      by (rule drawn_None)
    with Arc arc_drawn [of K "ctx ?s1" pt radius startAngle endAngle cc "world ?s1" x w'] show ?thesis
      by (auto simp: c form_arc_def Let_def)
  next
    case (Square pt halfsize)
    let ?r = "SVGForm_square K (ctx ?s1) pt halfsize (world ?s1)"
    from assms(1) Square have "fst (drawn ?s1 ?r) = None"
      by (simp add: form_square_def Let_def)
    then obtain x w' where "?r = (Inr x, w')" and "snd (drawn ?s1 ?r) = ?s1\<lparr>world := w'\<rparr>"
      by (rule drawn_None)
    with Square square_drawn [of K "ctx ?s1" pt halfsize "world ?s1" x w'] show ?thesis
      by (auto simp: c form_square_def Let_def)
  next
    case (Line pts)
    let ?r = "SVGForm_line K (ctx ?s1) pts (world ?s1)"
    from assms(1) Line have "fst (drawn ?s1 ?r) = None"
      by (simp add: form_line_def Let_def)
    then obtain xo w' where r: "?r = (Inr xo, w')" and "snd (drawn ?s1 ?r) = ?s1\<lparr>world := w'\<rparr>"
      by (rule drawn_None)
    moreover from assms(2) Line r obtain elem where "xo = Some elem"
      using line_returns_element by fastforce
    ultimately show ?thesis
      using Line line_drawn_with [of K "ctx ?s1" pts "world ?s1" elem w']
      by (auto simp: c form_line_def Let_def)
  next
    case (Polygon pts)
    let ?r = "SVGForm_polygon K (ctx ?s1) pts (world ?s1)"
    from assms(1) Polygon have "fst (drawn ?s1 ?r) = None"
      by (simp add: form_polygon_def Let_def)
    then obtain xo w' where r: "?r = (Inr xo, w')" and "snd (drawn ?s1 ?r) = ?s1\<lparr>world := w'\<rparr>"
      by (rule drawn_None)
    moreover from assms(2) Polygon r obtain elem where "xo = Some elem"
      using poly_returns_element by (fastforce simp: SVGForm_polygon_def)
    ultimately show ?thesis
      using Polygon polygon_drawn [of K "ctx ?s1" pts "world ?s1" elem w']
      by (auto simp: c form_polygon_def Let_def)
  next
    case (Rect pts)
    let ?r = "SVGForm_rect K (ctx ?s1) pts (world ?s1)"
    from assms(1) Rect have "fst (drawn ?s1 ?r) = None"
      by (simp add: form_rect_def Let_def)
    then obtain xo w' where r: "?r = (Inr xo, w')" and "snd (drawn ?s1 ?r) = ?s1\<lparr>world := w'\<rparr>"
      by (rule drawn_None)
    moreover from assms(2) Rect r obtain elem where "xo = Some elem"
      using rect_returns_element by fastforce
    ultimately show ?thesis
      using Rect rect_drawn [of K "ctx ?s1" pts "world ?s1" elem w']
      by (auto simp: c form_rect_def Let_def)
  next
    case (Text pt t)
    let ?r = "SVGForm_text K (ctx ?s1) pt t (world ?s1)"
    from assms(1) Text have "fst (drawn ?s1 ?r) = None"
      by (simp add: form_text_def Let_def)
    then obtain x w' where "?r = (Inr x, w')" and "snd (drawn ?s1 ?r) = ?s1\<lparr>world := w'\<rparr>"
      by (rule drawn_None)
    with Text text_drawn [of K "ctx ?s1" pt t "world ?s1" x w'] show ?thesis
      by (auto simp: c form_text_def Let_def)
  qed
qed

lemma form_draw_uses_style:
  assumes "fst (form_draw K call s) = None" and "draws_element call"
  shows "\<exists>elem. querySelector_id (document (world (snd (form_draw K call s))))
                   (currentID (ctx (snd (form_draw K call s)))) = Some elem
    \<and> map_of (attributes (document (world (snd (form_draw K call s))) ! elem)) ''style''
        = Some (join '';'' (style_list (numToString K) (style (ctx s))))"
proof -
  let ?c = "ctx (snd (form_draw K call s))"
  have c: "?c = ctx (snd (form_nextID s))"
    by (rule ctx_form_draw)
  have "currentID ?c \<noteq> []" and st: "style ?c = style (ctx s)"
    by (simp_all add: c ctx_nextID)
  then have i: "fst (SVGForm_getID ?c (world s)) = currentID ?c"
    by (simp add: SVGForm_getID_def)
  from form_draw_styled [OF assms] obtain elem
    where "drawn_with K ?c (world s) elem (world (snd (form_draw K call s)))"
    by blast
  then show ?thesis
    unfolding drawn_with_def i st by blast
qed

lemma group_styleTo [simp]: "group (ctx (snd (form_styleTo k v s))) = group (ctx s)"
  by (simp add: form_styleTo_def)

lemma group_and_then:
  assumes "\<And>s. group (ctx (snd (f s))) = group (ctx s)"
    and "\<And>s. group (ctx (snd (g s))) = group (ctx s)"
  shows "group (ctx (snd (and_then f g s))) = group (ctx s)"
proof (cases "f s")
  case (Pair r s1)
  with assms(1) [of s] have "group (ctx s1) = group (ctx s)"
    by simp
  with Pair assms(2) [of s1] show ?thesis
    by (cases r) (simp_all add: and_then_def)
qed

lemma group_skip [simp]: "group (ctx (snd (skip s))) = group (ctx s)"
  by (simp add: skip_def)

lemma group_fill [simp]: "group (ctx (snd (form_fill c s))) = group (ctx s)"
  by (cases c) (simp_all add: form_fill_def group_and_then)

lemma group_stroke [simp]:
  "group (ctx (snd (form_stroke c width linejoin linecap s))) = group (ctx s)"
  by (cases c) (simp_all add: form_stroke_def group_and_then)

lemma group_form_draw [simp]: "group (ctx (snd (form_draw K call s))) = group (ctx s)"
  by (simp add: ctx_form_draw ctx_nextID)

lemma group_log [simp]: "group (ctx (snd (form_log K t s))) = group (ctx s)"
  unfolding form_log_def
  by (intro group_and_then) (simp_all add: form_text_ctx ctx_nextID)

lemma form_square_returns:
  assumes "group (ctx s) = Some g" and "map_of (style (ctx s)) ''hasOwnProperty'' = None"
  shows "fst (form_square K pt halfsize s) = None"
proof -
  let ?s1 = "snd (form_nextID s)"
  have g: "group (ctx ?s1) = Some g" and h: "map_of (style (ctx ?s1)) ''hasOwnProperty'' = None"
    using assms by (simp_all add: ctx_nextID)
  from ctx_element_node [OF g] obtain elem w1
    where e: "ctx_element (ctx ?s1) ''rect'' (world ?s1) = (Inr elem, w1)"
    by blast
  from style_returns [OF h] obtain w'
    where "SVGForm_square K (ctx ?s1) pt halfsize (world ?s1) = (Inr elem, w')"
    unfolding SVGForm_square_def e by (simp only: prod.case sum.case) blast
  then show ?thesis
    by (simp add: form_square_def Let_def drawn_def)
qed

text \<open>The entries that the style of a context contributes to the \<open>style\<close> attribute.\<close>

lemma join_contains:
  "x \<in> set xs \<Longrightarrow> \<exists>pre post. join sep xs = pre @ x @ post"
proof (induction sep xs rule: join.induct)
  case (1 sep)
  then show ?case by simp
next
  case (2 sep y)
  then have "join sep [y] = [] @ x @ []"
    by simp
  then show ?case by blast
next
  case (3 sep y z zs)
  show ?case
  proof (cases "x = y")
    case True
    then have "join sep (y # z # zs) = [] @ x @ (sep @ join sep (z # zs))"
      by simp
    then show ?thesis by blast
  next
    case False
    with 3 obtain pre post where "join sep (z # zs) = pre @ x @ post"
      by auto
    then have "join sep (y # z # zs) = (y @ sep @ pre) @ x @ post"
      by simp
    then show ?thesis by blast
  qed
qed

lemma style_list_entry:
  assumes "map_of styles k = Some v" and "k \<noteq> ''filled''" and "k \<noteq> ''stroked''" and "truthy v"
    and "member_truthy styles ''filled''" and "member_truthy styles ''stroked''"
  shows "k @ '': '' @ to_string ns v \<in> set (style_list ns styles)"
proof -
  from assms(1) have "(k, v) \<in> set styles"
    by (rule map_of_SomeD)
  moreover have "style_entry ns styles (k, v) = [k @ '': '' @ to_string ns v]"
    using assms(2-6) by (simp add: style_entry_def)
  ultimately show ?thesis
    by (force simp: style_list_def)
qed

lemma overlay_style_list:
  assumes "map_of styles ''filled'' = Some (Bool True)"
    and "map_of styles ''fill'' = Some (Str ''#000'')"
    and "map_of styles ''stroked'' = Some (Bool True)"
    and "map_of styles ''stroke'' = Some (Str ''#fff'')"
    and "map_of styles ''stroke-width'' = Some (Num (1 / 2))"
  shows "''fill: #000'' \<in> set (style_list ns styles)"
    and "''stroke: #fff'' \<in> set (style_list ns styles)"
    and "''stroke-width: '' @ ns (1 / 2) \<in> set (style_list ns styles)"
proof -
  have t: "member_truthy styles ''filled''" "member_truthy styles ''stroked''"
    using assms(1,3) by (simp_all add: member_truthy_def)
  show "''fill: #000'' \<in> set (style_list ns styles)"
    using style_list_entry [OF assms(2) _ _ _ t, of ns] by simp
  show "''stroke: #fff'' \<in> set (style_list ns styles)"
    using style_list_entry [OF assms(4) _ _ _ t, of ns] by simp
  show "''stroke-width: '' @ ns (1 / 2) \<in> set (style_list ns styles)"
    using style_list_entry [OF assms(5) _ _ _ t, of ns] by simp
qed

text \<open>The setters of the style leave the identifiers of the context alone.\<close>

lemma ids_styleTo [simp]:
  "groupID (ctx (snd (form_styleTo k v s))) = groupID (ctx s)"
  "groupCount (ctx (snd (form_styleTo k v s))) = groupCount (ctx s)"
  by (simp_all add: form_styleTo_def)

lemma groupID_and_then:
  assumes "\<And>s. groupID (ctx (snd (f s))) = groupID (ctx s)"
    and "\<And>s. groupID (ctx (snd (g s))) = groupID (ctx s)"
  shows "groupID (ctx (snd (and_then f g s))) = groupID (ctx s)"
proof (cases "f s")
  case (Pair r s1)
  with assms(1) [of s] have "groupID (ctx s1) = groupID (ctx s)"
    by simp
  with Pair assms(2) [of s1] show ?thesis
    by (cases r) (simp_all add: and_then_def)
qed

lemma groupCount_and_then:
  assumes "\<And>s. groupCount (ctx (snd (f s))) = groupCount (ctx s)"
    and "\<And>s. groupCount (ctx (snd (g s))) = groupCount (ctx s)"
  shows "groupCount (ctx (snd (and_then f g s))) = groupCount (ctx s)"
proof (cases "f s")
  case (Pair r s1)
  with assms(1) [of s] have "groupCount (ctx s1) = groupCount (ctx s)"
    by simp
  with Pair assms(2) [of s1] show ?thesis
    by (cases r) (simp_all add: and_then_def)
qed

lemma ids_skip [simp]:
  "groupID (ctx (snd (skip s))) = groupID (ctx s)"
  "groupCount (ctx (snd (skip s))) = groupCount (ctx s)"
  by (simp_all add: skip_def)

lemma ids_fill [simp]:
  "groupID (ctx (snd (form_fill c s))) = groupID (ctx s)"
  "groupCount (ctx (snd (form_fill c s))) = groupCount (ctx s)"
  by (cases c; simp add: form_fill_def groupID_and_then groupCount_and_then)+

lemma ids_stroke [simp]:
  "groupID (ctx (snd (form_stroke c width linejoin linecap s))) = groupID (ctx s)"
  "groupCount (ctx (snd (form_stroke c width linejoin linecap s))) = groupCount (ctx s)"
  by (cases c; simp add: form_stroke_def groupID_and_then groupCount_and_then)+

lemma log_ids:
  assumes "fst (form_log K txt s) = None"
  shows "groupID (ctx (snd (form_log K txt s))) = groupID (ctx s)"
    and "groupCount (ctx (snd (form_log K txt s))) = groupCount (ctx s) + 1"
proof -
  let ?f = "form_fill (Str ''#000'')"
    and ?g = "form_stroke (Str ''#fff'') (Num 0.5) Undefined Undefined"
    and ?h = "form_text K [10, 14] txt"
  have eq: "form_log K txt s = and_then ?f (and_then ?g ?h) s"
    by (simp add: form_log_def)
  from assms eq and_then_None [of ?f "and_then ?g ?h" s]
  have 2: "and_then ?f (and_then ?g ?h) s = and_then ?g ?h (snd (?f s))"
    by simp
  with assms eq have "fst (and_then ?g ?h (snd (?f s))) = None"
    by simp
  from and_then_None [OF this]
  have 4: "and_then ?g ?h (snd (?f s)) = ?h (snd (?g (snd (?f s))))"
    by simp
  have c: "ctx (snd (form_log K txt s)) = ctx (snd (form_nextID (snd (?g (snd (?f s))))))"
    by (simp only: eq 2 4 form_text_ctx)
  have "groupID (ctx (snd (?g (snd (?f s))))) = groupID (ctx s)
      \<and> groupCount (ctx (snd (?g (snd (?f s))))) = groupCount (ctx s)"
    by simp
  then show "groupID (ctx (snd (form_log K txt s))) = groupID (ctx s)"
    and "groupCount (ctx (snd (form_log K txt s))) = groupCount (ctx s) + 1"
    by (simp_all add: c ctx_nextID)
qed

subsection \<open>Further facts about the style setter, the ids and the scope\<close>

text \<open>
  What \<open>styleTo\<close> does on the keys it was written for: a key that is neither an own
  property nor a member of \<open>Object.prototype\<close> throws, and an own property with a value
  other than \<open>undefined\<close> is overwritten, the others staying as they are.
\<close>

lemma styleTo_unknown_key_raises:
  assumes "map_of (style (ctx s)) k = None" and "k \<notin> set object_prototype"
  shows "form_styleTo k v s = (Some (Error (k @ '' style property doesn't exist'')), s)"
  using assms by (simp add: form_styleTo_def is_undefined_def)

lemma styleTo_known_key_updates:
  assumes "map_of (style (ctx s)) k = Some u" and "u \<noteq> Undefined" and "k \<noteq> ''__proto__''"
  shows "fst (form_styleTo k v s) = None"
    and "map_of (style (ctx (snd (form_styleTo k v s)))) k = Some v"
    and "k' \<noteq> k \<Longrightarrow> map_of (style (ctx (snd (form_styleTo k v s)))) k' = map_of (style (ctx s)) k'"
  using assms
  by (cases u; simp add: form_styleTo_def is_undefined_def map_of_assign)+

text \<open>
  Once a listed key holds \<open>undefined\<close> (here after \<open>fill(undefined)\<close>), the same test
  makes \<open>styleTo\<close> throw for that key.
\<close>

lemma styleTo_after_undefined:
  "fst (form_fill Undefined started_form) = None"
  "fst (form_styleTo ''fill'' (Str ''#000'') (snd (form_fill Undefined started_form)))
     = Some (Error ''fill style property doesn't exist'')"
  by (simp_all add: form_fill_def and_then_def form_styleTo_def is_undefined_def assign_def
      started_form_simps style_literal_def)

text \<open>A line of fewer than two points draws nothing, and still takes an id.\<close>

lemma form_line_few_points:
  assumes "length pts < 2"
  shows "form_line K pts s = (None, snd (form_nextID s))"
  using assms by (simp add: form_line_def Let_def line_few drawn_def form_nextID_def)

text \<open>
  Two frames in the same scope: the first draws a line of two points, the second a
  line of three. Both take the id \<open>item-0-1\<close>, so the second finds the \<open>line\<close> element
  of the first and no \<open>polyline\<close> is created.
\<close>

lemma redraw_in_scope_keeps_line_element:
  "map tagName (document (world (snd (form_line sample_collaborators [[0, 0], [1, 1], [2, 2]]
      (form_updateScope ''item-0'' (Some 0)
        (snd (form_line sample_collaborators [[0, 0], [1, 1]]
          (form_updateScope ''item-0'' (Some 0) started_form)))))))) = [''svg'', ''line'']"
  by (simp add: form_line_def form_updateScope_def form_nextID_def drawn_def eval_draw
      show_nat.simps digit_def)

subsection \<open>The claims about SVGForm\<close>

text \<open>
  C4. Every drawing method of a form (point, circle, arc, square, line, polygon, rect,
  text), on any arguments and in any state, leaves the context with \<open>groupCount\<close> one
  higher, the same \<open>groupID\<close>, and \<open>currentID\<close> equal to \<open>groupID\<close>, a hyphen and the
  new count. This holds whether the call creates an element, creates none (a line of
  fewer than two points), goes through \<open>_poly\<close>, or throws.
\<close>

theorem draw_call_advances_id:
  "groupCount (ctx (snd (form_draw K call s))) = groupCount (ctx s) + 1
   \<and> groupID (ctx (snd (form_draw K call s))) = groupID (ctx s)
   \<and> currentID (ctx (snd (form_draw K call s)))
       = groupID (ctx (snd (form_draw K call s))) @ ''-''
         @ show_nat (groupCount (ctx (snd (form_draw K call s))))"
  by (simp add: ctx_form_draw ctx_nextID)

text \<open>
  C5. After \<open>reset()\<close> the style of the context is the literal of lines 231-237 and the
  font of the form has size 14 and face sans-serif. The literal spells the line cap
  \<open>sqaure\<close>, so the entry \<open>stroke-linecap\<close> is not \<open>square\<close>.
\<close>

theorem reset_style_and_font:
  "fst (form_reset K s) = None
   \<and> style (ctx (snd (form_reset K s)))
       = [(''filled'', Bool True), (''stroked'', Bool True),
          (''fill'', Str ''#f03''), (''stroke'', Str ''#fff''),
          (''stroke-width'', Num 1), (''stroke-linejoin'', Str ''bevel''),
          (''stroke-linecap'', Str ''sqaure'')]
   \<and> map_of (style (ctx (snd (form_reset K s)))) ''stroke-linecap'' \<noteq> Some (Str ''square'')
   \<and> form_font (snd (form_reset K s)) = \<lparr>font_size = 14, font_face = ''sans-serif''\<rparr>"
  by (simp add: form_reset_def Let_def style_literal_def)

text \<open>
  C6. \<open>styleTo\<close> tests \<open>this._ctx.style[k] === undefined\<close>, which an inherited member of
  \<open>Object.prototype\<close> passes: the key \<open>toString\<close> is none of the seven style keys and no
  own property of the style, and still \<open>styleTo("toString", "red")\<close> throws nothing and
  adds the property.
\<close>

theorem styleTo_accepts_inherited_key:
  "''toString'' \<notin> {''filled'', ''stroked'', ''fill'', ''stroke'', ''stroke-width'',
                      ''stroke-linejoin'', ''stroke-linecap''}
   \<and> map_of (style (ctx started_form)) ''toString'' = None
   \<and> fst (form_styleTo ''toString'' (Str ''red'') started_form) = None
   \<and> style (ctx (snd (form_styleTo ''toString'' (Str ''red'') started_form)))
       = style (ctx started_form) @ [(''toString'', Str ''red'')]"
  by (simp add: form_styleTo_def is_undefined_def object_prototype_def assign_def
        started_form_simps style_literal_def)

text \<open>
  C10. When \<open>log(txt)\<close> returns, the style of the context has \<open>filled = true\<close>,
  \<open>fill = "#000"\<close>, \<open>stroked = true\<close>, \<open>stroke = "#fff"\<close> and \<open>stroke-width = 0.5\<close>,
  whatever it held before; the line join and the line cap are as before. Nothing
  restores the earlier values: a drawing method called afterwards leaves the style as
  \<open>log\<close> left it. The entries that \<open>SVGForm.style\<close> makes of this style include
  \<open>fill: #000\<close>, \<open>stroke: #fff\<close> and \<open>stroke-width: \<close> followed by the decimal form of
  0.5; and where a drawing method called afterwards returns and reaches \<open>svgElement\<close>
  (the context's id being a CSS identifier), the element that the document then holds
  under the context's id has, as its \<open>style\<close> attribute, these entries joined by
  semicolons, so the attribute contains each of the three.
\<close>

theorem log_leaves_overlay_style:
  assumes "fst (form_log K txt s) = None"
  shows "map_of (style (ctx (snd (form_log K txt s)))) ''filled'' = Some (Bool True)
    \<and> map_of (style (ctx (snd (form_log K txt s)))) ''fill'' = Some (Str ''#000'')
    \<and> map_of (style (ctx (snd (form_log K txt s)))) ''stroked'' = Some (Bool True)
    \<and> map_of (style (ctx (snd (form_log K txt s)))) ''stroke'' = Some (Str ''#fff'')
    \<and> map_of (style (ctx (snd (form_log K txt s)))) ''stroke-width'' = Some (Num 0.5)
    \<and> map_of (style (ctx (snd (form_log K txt s)))) ''stroke-linejoin''
        = map_of (style (ctx s)) ''stroke-linejoin''
    \<and> map_of (style (ctx (snd (form_log K txt s)))) ''stroke-linecap''
        = map_of (style (ctx s)) ''stroke-linecap''
    \<and> style (ctx (snd (form_draw K call (snd (form_log K txt s)))))
        = style (ctx (snd (form_log K txt s)))
    \<and> ''fill: #000'' \<in> set (style_list (numToString K) (style (ctx (snd (form_log K txt s)))))
    \<and> ''stroke: #fff'' \<in> set (style_list (numToString K) (style (ctx (snd (form_log K txt s)))))
    \<and> ''stroke-width: '' @ numToString K 0.5
        \<in> set (style_list (numToString K) (style (ctx (snd (form_log K txt s)))))
    \<and> (fst (form_draw K call (snd (form_log K txt s))) = None \<and> draws_element call
        \<and> css_identifier (currentID (ctx (snd (form_draw K call (snd (form_log K txt s))))))
        \<longrightarrow>
         (\<exists>elem v.
            querySelector_id (document (world (snd (form_draw K call (snd (form_log K txt s))))))
              (currentID (ctx (snd (form_draw K call (snd (form_log K txt s)))))) = Some elem
            \<and> map_of (attributes (document (world (snd (form_draw K call (snd (form_log K txt s)))))
                  ! elem)) ''style'' = Some v
            \<and> v = join '';'' (style_list (numToString K) (style (ctx (snd (form_log K txt s)))))
            \<and> (\<exists>pre post. v = pre @ ''fill: #000'' @ post)
            \<and> (\<exists>pre post. v = pre @ ''stroke: #fff'' @ post)
            \<and> (\<exists>pre post. v = pre @ (''stroke-width: '' @ numToString K 0.5) @ post)))"
proof -
  let ?s' = "snd (form_log K txt s)"
  let ?l = "style_list (numToString K) (style (ctx ?s'))"
  have m: "map_of (style (ctx ?s')) ''filled'' = Some (Bool True)"
    "map_of (style (ctx ?s')) ''fill'' = Some (Str ''#000'')"
    "map_of (style (ctx ?s')) ''stroked'' = Some (Bool True)"
    "map_of (style (ctx ?s')) ''stroke'' = Some (Str ''#fff'')"
    "map_of (style (ctx ?s')) ''stroke-width'' = Some (Num (1 / 2))"
    by (simp_all add: log_style [OF assms] map_of_assign)
  have k: "map_of (style (ctx ?s')) ''stroke-linejoin'' = map_of (style (ctx s)) ''stroke-linejoin''"
    "map_of (style (ctx ?s')) ''stroke-linecap'' = map_of (style (ctx s)) ''stroke-linecap''"
    "style (ctx (snd (form_draw K call ?s'))) = style (ctx ?s')"
    by (simp_all add: log_style [OF assms] map_of_assign ctx_form_draw ctx_nextID)
  have e: "''fill: #000'' \<in> set ?l" "''stroke: #fff'' \<in> set ?l"
    "''stroke-width: '' @ numToString K (1 / 2) \<in> set ?l"
    using overlay_style_list [OF m, of "numToString K"] by simp_all
  have c: "(\<exists>pre post. join '';'' ?l = pre @ ''fill: #000'' @ post)
      \<and> (\<exists>pre post. join '';'' ?l = pre @ ''stroke: #fff'' @ post)
      \<and> (\<exists>pre post. join '';'' ?l = pre @ (''stroke-width: '' @ numToString K (1 / 2)) @ post)"
    using e [THEN join_contains, of "'';''"] by blast
  have d: "\<exists>elem v.
            querySelector_id (document (world (snd (form_draw K call ?s'))))
              (currentID (ctx (snd (form_draw K call ?s')))) = Some elem
            \<and> map_of (attributes (document (world (snd (form_draw K call ?s'))) ! elem)) ''style''
                = Some v
            \<and> v = join '';'' ?l
            \<and> (\<exists>pre post. v = pre @ ''fill: #000'' @ post)
            \<and> (\<exists>pre post. v = pre @ ''stroke: #fff'' @ post)
            \<and> (\<exists>pre post. v = pre @ (''stroke-width: '' @ numToString K (1 / 2)) @ post)"
    if "fst (form_draw K call ?s') = None" and "draws_element call"
    using form_draw_uses_style [OF that] c by blast
  have h: "(0.5::real) = 1 / 2"
    by simp
  show ?thesis
    unfolding h using m k e d by blast
qed

theorem log_leaves_overlay_style_witness:
  "fst (form_log sample_collaborators ''hi'' started_form) = None
   \<and> map_of (style (ctx started_form)) ''fill'' = Some (Str ''#f03'')
   \<and> map_of (style (ctx started_form)) ''stroke-width'' = Some (Num 1)
   \<and> map_of (style (ctx (snd (form_log sample_collaborators ''hi'' started_form)))) ''fill''
       = Some (Str ''#000'')
   \<and> map_of (style (ctx (snd (form_log sample_collaborators ''hi'' started_form)))) ''stroke-width''
       = Some (Num 0.5)
   \<and> fst (form_draw sample_collaborators (Square [3, 4] 5)
         (snd (form_log sample_collaborators ''hi'' started_form))) = None
   \<and> draws_element (Square [3, 4] 5)
   \<and> currentID (ctx (snd (form_draw sample_collaborators (Square [3, 4] 5)
         (snd (form_log sample_collaborators ''hi'' started_form))))) = ''pts_svg_0-2''
   \<and> css_identifier ''pts_svg_0-2''
   \<and> map_of (style (ctx (snd (form_draw sample_collaborators (Square [3, 4] 5)
         (snd (form_log sample_collaborators ''hi'' started_form)))))) ''fill''
       = Some (Str ''#000'')
   \<and> (\<exists>elem.
         querySelector_id (document (world (snd (form_draw sample_collaborators (Square [3, 4] 5)
             (snd (form_log sample_collaborators ''hi'' started_form)))))) ''pts_svg_0-2'' = Some elem
         \<and> map_of (attributes (document (world (snd (form_draw sample_collaborators
             (Square [3, 4] 5) (snd (form_log sample_collaborators ''hi'' started_form))))) ! elem))
             ''style''
           = Some ''fill: #000;stroke: #fff;stroke-width: 0.5;stroke-linejoin: bevel;stroke-linecap: sqaure'')"
proof -
  let ?K = sample_collaborators
  let ?s' = "snd (form_log ?K ''hi'' started_form)"
  let ?s'' = "snd (form_draw ?K (Square [3, 4] 5) ?s')"
  have ret: "fst (form_log ?K ''hi'' started_form) = None"
    by (rule log_returns [where g = 0]) (simp_all add: started_form_style, simp add: started_form_simps)
  have before: "map_of (style (ctx started_form)) ''fill'' = Some (Str ''#f03'')"
    "map_of (style (ctx started_form)) ''stroke-width'' = Some (Num 1)"
    by (simp_all add: started_form_simps style_literal_def)
  have g: "group (ctx ?s') = Some 0"
    by (simp add: started_form_simps)
  have own: "map_of (style (ctx ?s')) ''hasOwnProperty'' = None"
    by (simp add: log_style [OF ret] map_of_assign started_form_style)
  have sq: "fst (form_draw ?K (Square [3, 4] 5) ?s') = None"
    using form_square_returns [OF g own] by simp
  have dr: "draws_element (Square [3, 4] 5)"
    by simp
  have two: "show_nat 2 = ''2''"
    by (simp add: show_nat.simps digit_def)
  have i: "currentID (ctx ?s'') = ''pts_svg_0-2''"
    by (simp only: ctx_form_draw) (simp add: ctx_nextID log_ids [OF ret] started_form_simps show_nat.simps digit_def)
  have css: "css_identifier ''pts_svg_0-2''"
    by (simp add: name_start_def name_char_def)
  have st: "style (ctx ?s')
      = [(''filled'', Bool True), (''stroked'', Bool True), (''fill'', Str ''#000''),
         (''stroke'', Str ''#fff''), (''stroke-width'', Num (1 / 2)),
         (''stroke-linejoin'', Str ''bevel''), (''stroke-linecap'', Str ''sqaure'')]"
    by (simp add: log_style [OF ret] started_form_simps style_literal_def assign_def)
  have j: "join '';'' (style_list (numToString ?K) (style (ctx ?s')))
      = ''fill: #000;stroke: #fff;stroke-width: 0.5;stroke-linejoin: bevel;stroke-linecap: sqaure''"
    unfolding st by (simp add: style_list_def style_entry_def member_truthy_def sample_numbers)
  note T = log_leaves_overlay_style [OF ret, of "Square [3, 4] 5"]
  note after = T [THEN conjunct2, THEN conjunct1] T [THEN conjunct2, THEN conjunct2, THEN conjunct2, THEN conjunct2, THEN conjunct1]
  have f: "map_of (style (ctx ?s'')) ''fill'' = Some (Str ''#000'')"
    by (simp only: T [THEN conjunct2, THEN conjunct2, THEN conjunct2, THEN conjunct2, THEN conjunct2, THEN conjunct2, THEN conjunct2, THEN conjunct1] after)
  have css': "css_identifier (currentID (ctx ?s''))"
    by (simp only: i css)
  have "\<exists>elem v. querySelector_id (document (world ?s'')) (currentID (ctx ?s'')) = Some elem
            \<and> map_of (attributes (document (world ?s'') ! elem)) ''style'' = Some v
            \<and> v = join '';'' (style_list (numToString ?K) (style (ctx ?s')))
            \<and> (\<exists>pre post. v = pre @ ''fill: #000'' @ post)
            \<and> (\<exists>pre post. v = pre @ ''stroke: #fff'' @ post)
            \<and> (\<exists>pre post. v = pre @ (''stroke-width: '' @ numToString ?K 0.5) @ post)"
    by (rule mp [OF T [THEN conjunct2, THEN conjunct2, THEN conjunct2, THEN conjunct2, THEN conjunct2, THEN conjunct2, THEN conjunct2, THEN conjunct2, THEN conjunct2, THEN conjunct2, THEN conjunct2]]) (intro conjI sq dr css')
  then have ex: "\<exists>elem. querySelector_id (document (world ?s'')) ''pts_svg_0-2'' = Some elem
      \<and> map_of (attributes (document (world ?s'') ! elem)) ''style''
        = Some ''fill: #000;stroke: #fff;stroke-width: 0.5;stroke-linejoin: bevel;stroke-linecap: sqaure''"
    unfolding i j by (elim exE conjE) (intro exI conjI, assumption, simp)
  show ?thesis
    by (intro conjI) (fact ret before after sq dr i css f ex)+
qed

text \<open>
  The path that \<open>arc\<close> writes has, as its large-arc flag, 1 exactly when
  \<open>boundAngle endAngle - boundAngle startAngle > Const.pi\<close> differs from \<open>cc\<close> (the
  exclusive or), and as its sweep flag 0 when \<open>cc\<close> holds and 1 otherwise; a call that
  returns an element (the context's id being a CSS identifier) has set this path as
  the element's attribute \<open>d\<close>.
\<close>

lemma arc_flags:
  "arc_d K pt radius startAngle endAngle cc =
     ''M '' @ to_string (numToString K) (coord (toAngle K pt startAngle radius) 0)
     @ '' '' @ to_string (numToString K) (coord (toAngle K pt startAngle radius) 1)
     @ '' A '' @ numToString K radius @ '' '' @ numToString K radius @ '' 0 ''
     @ (if (double (boundAngle K endAngle - boundAngle K startAngle) > Const_pi) \<noteq> cc
        then ''1'' else ''0'')
     @ '' '' @ (if cc then ''0'' else ''1'')
     @ '' '' @ to_string (numToString K) (coord (toAngle K pt endAngle radius) 0)
     @ '' '' @ to_string (numToString K) (coord (toAngle K pt endAngle radius) 1)
   \<and> (SVGForm_arc K c pt radius startAngle endAngle cc w = (Inr elem, w')
        \<and> css_identifier (fst (SVGForm_getID c w))
        \<longrightarrow> map_of (attributes (document w' ! elem)) ''d''
              = Some (arc_d K pt radius startAngle endAngle cc))"
proof (intro conjI impI)
  show "arc_d K pt radius startAngle endAngle cc =
     ''M '' @ to_string (numToString K) (coord (toAngle K pt startAngle radius) 0)
     @ '' '' @ to_string (numToString K) (coord (toAngle K pt startAngle radius) 1)
     @ '' A '' @ numToString K radius @ '' '' @ numToString K radius @ '' 0 ''
     @ (if (double (boundAngle K endAngle - boundAngle K startAngle) > Const_pi) \<noteq> cc
        then ''1'' else ''0'')
     @ '' '' @ (if cc then ''0'' else ''1'')
     @ '' '' @ to_string (numToString K) (coord (toAngle K pt endAngle radius) 0)
     @ '' '' @ to_string (numToString K) (coord (toAngle K pt endAngle radius) 1)"
    by (simp add: arc_d_def Let_def)
next
  assume "SVGForm_arc K c pt radius startAngle endAngle cc w = (Inr elem, w')
        \<and> css_identifier (fst (SVGForm_getID c w))"
  then have "SVGForm_arc K c pt radius startAngle endAngle cc w = (Inr elem, w')" ..
  then show "map_of (attributes (document w' ! elem)) ''d''
              = Some (arc_d K pt radius startAngle endAngle cc)"
    by (rule arc_attribute_d)
qed

text \<open>
  C8, as amended. The static \<open>line\<close> dispatches on the number of points. With fewer
  than two it returns nothing and leaves the world as it was. With more than two it is
  \<open>_poly\<close> with \<open>closePath = false\<close>. With two or more points and a group that is no
  node it throws "parent is not a valid DOM element" and the document is unchanged.
  With two or more points, a group that is an element of the document, a style
  without an own property \<open>hasOwnProperty\<close> and an id of the context that is a CSS
  identifier, it returns the element whose id is the context's id: the element the
  document already has under that id, with its tag as it was, or else a new last
  element, with tag \<open>line\<close> for exactly two points and \<open>polyline\<close> for more. On that
  element it has set \<open>x1\<close>, \<open>y1\<close>, \<open>x2\<close>, \<open>y2\<close> (two points) or \<open>points\<close> (more), and
  every other element is as before.
\<close>

theorem line_dispatch:
  "(length pts < 2 \<longrightarrow> SVGForm_line K c pts w = (Inr None, w))
   \<and> (2 < length pts \<longrightarrow> SVGForm_line K c pts w = SVGForm_poly K c pts False w)
   \<and> (2 \<le> length pts \<and> group c = None \<longrightarrow>
        (\<exists>w'. SVGForm_line K c pts w = (Inl (Error ''parent is not a valid DOM element''), w')
           \<and> document w' = document w))
   \<and> (2 \<le> length pts \<and> group c = Some g \<and> map_of (style c) ''hasOwnProperty'' = None
        \<and> css_identifier (fst (SVGForm_getID c w)) \<longrightarrow>
        (\<exists>elem w'. SVGForm_line K c pts w = (Inr (Some elem), w')
          \<and> elem < length (document w')
          \<and> map_of (attributes (document w' ! elem)) ''id'' = Some (fst (SVGForm_getID c w))
          \<and> (\<forall>j. j < length (document w) \<and> j \<noteq> elem \<longrightarrow> document w' ! j = document w ! j)
          \<and> (case querySelector_id (document w) (fst (SVGForm_getID c w)) of
                Some e \<Rightarrow> elem = e \<and> length (document w') = length (document w)
                           \<and> tagName (document w' ! elem) = tagName (document w ! e)
              | None \<Rightarrow> elem = length (document w)
                           \<and> length (document w') = Suc (length (document w))
                           \<and> tagName (document w' ! elem)
                               = (if length pts = 2 then ''line'' else ''polyline''))
          \<and> (if length pts = 2
              then map_of (attributes (document w' ! elem)) ''x1''
                     = Some (to_string (numToString K) (coord (pts ! 0) 0))
                 \<and> map_of (attributes (document w' ! elem)) ''y1''
                     = Some (to_string (numToString K) (coord (pts ! 0) 1))
                 \<and> map_of (attributes (document w' ! elem)) ''x2''
                     = Some (to_string (numToString K) (coord (pts ! 1) 0))
                 \<and> map_of (attributes (document w' ! elem)) ''y2''
                     = Some (to_string (numToString K) (coord (pts ! 1) 1))
              else map_of (attributes (document w' ! elem)) ''points''
                     = Some (poly_points (numToString K) pts))))"
proof (intro conjI impI)
  assume "length pts < 2"
  then show "SVGForm_line K c pts w = (Inr None, w)"
    by (rule line_few)
next
  assume "2 < length pts"
  then show "SVGForm_line K c pts w = SVGForm_poly K c pts False w"
    by (rule line_many)
next
  assume "2 \<le> length pts \<and> group c = None"
  then have "SVGForm_line K c pts w
      = (Inl (Error ''parent is not a valid DOM element''), snd (SVGForm_getID c w))"
    by (simp add: line_no_node)
  then show "\<exists>w'. SVGForm_line K c pts w = (Inl (Error ''parent is not a valid DOM element''), w')
           \<and> document w' = document w"
    by simp
next
  assume "2 \<le> length pts \<and> group c = Some g \<and> map_of (style c) ''hasOwnProperty'' = None
        \<and> css_identifier (fst (SVGForm_getID c w))"
  then have "2 \<le> length pts" and "group c = Some g" and "map_of (style c) ''hasOwnProperty'' = None"
    by simp_all
  then show "\<exists>elem w'. SVGForm_line K c pts w = (Inr (Some elem), w')
          \<and> elem < length (document w')
          \<and> map_of (attributes (document w' ! elem)) ''id'' = Some (fst (SVGForm_getID c w))
          \<and> (\<forall>j. j < length (document w) \<and> j \<noteq> elem \<longrightarrow> document w' ! j = document w ! j)
          \<and> (case querySelector_id (document w) (fst (SVGForm_getID c w)) of
                Some e \<Rightarrow> elem = e \<and> length (document w') = length (document w)
                           \<and> tagName (document w' ! elem) = tagName (document w ! e)
              | None \<Rightarrow> elem = length (document w)
                           \<and> length (document w') = Suc (length (document w))
                           \<and> tagName (document w' ! elem)
                               = (if length pts = 2 then ''line'' else ''polyline''))
          \<and> (if length pts = 2
              then map_of (attributes (document w' ! elem)) ''x1''
                     = Some (to_string (numToString K) (coord (pts ! 0) 0))
                 \<and> map_of (attributes (document w' ! elem)) ''y1''
                     = Some (to_string (numToString K) (coord (pts ! 0) 1))
                 \<and> map_of (attributes (document w' ! elem)) ''x2''
                     = Some (to_string (numToString K) (coord (pts ! 1) 0))
                 \<and> map_of (attributes (document w' ! elem)) ''y2''
                     = Some (to_string (numToString K) (coord (pts ! 1) 1))
              else map_of (attributes (document w' ! elem)) ''points''
                     = Some (poly_points (numToString K) pts))"
    by (rule line_on_node)
qed

theorem line_dispatch_witness:
  "length [[0, 0::real]] < 2
   \<and> SVGForm_line sample_collaborators (ctx started_form) [[0, 0]] (world started_form)
       = (Inr None, world started_form)
   \<and> 2 < length [[0, 0], [1, 1], [2, 2::real]]
   \<and> SVGForm_line sample_collaborators (ctx started_form) [[0, 0], [1, 1], [2, 2]] (world started_form)
       = SVGForm_poly sample_collaborators (ctx started_form) [[0, 0], [1, 1], [2, 2]] False
           (world started_form)
   \<and> group (ctx new_form) = None
   \<and> (\<exists>w'. SVGForm_line sample_collaborators (ctx new_form) [[0, 0], [1, 1]] (world new_form)
              = (Inl (Error ''parent is not a valid DOM element''), w')
          \<and> document w' = [svg_root])
   \<and> group (ctx started_form) = Some 0
   \<and> map_of (style (ctx started_form)) ''hasOwnProperty'' = None
   \<and> fst (SVGForm_getID (ctx started_form) (world started_form)) = ''pts0''
   \<and> css_identifier ''pts0''
   \<and> (\<exists>w'. SVGForm_line sample_collaborators (ctx started_form) [[0, 0], [1, 1]] (world started_form)
              = (Inr (Some 1), w')
          \<and> map tagName (document w') = [''svg'', ''line'']
          \<and> map_of (attributes (document w' ! 1)) ''id'' = Some ''pts0''
          \<and> map_of (attributes (document w' ! 1)) ''x1'' = Some ''0''
          \<and> map_of (attributes (document w' ! 1)) ''y1'' = Some ''0''
          \<and> map_of (attributes (document w' ! 1)) ''x2'' = Some ''1''
          \<and> map_of (attributes (document w' ! 1)) ''y2'' = Some ''1'')"
proof -
  let ?K = sample_collaborators and ?c = "ctx started_form" and ?w = "world started_form"
  have few: "SVGForm_line ?K ?c [[0, 0]] ?w = (Inr None, ?w)"
    using line_dispatch [of "[[0, 0]]" ?K ?c ?w] by simp
  have many: "SVGForm_line ?K ?c [[0, 0], [1, 1], [2, 2]] ?w
      = SVGForm_poly ?K ?c [[0, 0], [1, 1], [2, 2]] False ?w"
    using line_dispatch [of "[[0, 0], [1, 1], [2, 2]]" ?K ?c ?w] by simp
  have none: "\<exists>w'. SVGForm_line ?K (ctx new_form) [[0, 0], [1, 1]] (world new_form)
              = (Inl (Error ''parent is not a valid DOM element''), w')
          \<and> document w' = [svg_root]"
    using line_dispatch [of "[[0, 0], [1, 1]]" ?K "ctx new_form" "world new_form"]
    by (simp add: new_form_simps)
  have g: "group ?c = Some 0" and own: "map_of (style ?c) ''hasOwnProperty'' = None"
    by (simp_all add: started_form_simps style_literal_def)
  have i: "fst (SVGForm_getID ?c ?w) = ''pts0''"
    by (simp add: SVGForm_getID_def started_form_simps)
  have q: "querySelector_id (document ?w) ''pts0'' = None"
    by (simp add: querySelector_id_def started_form_simps svg_root_def)
  have doc: "document ?w = [svg_root]"
    by (simp add: started_form_simps)
  have css: "css_identifier ''pts0''"
    by (simp add: name_start_def name_char_def)
  from line_dispatch [of "[[0, 0], [1, 1]]" ?K ?c ?w 0] g own css
  obtain elem w' where r: "SVGForm_line ?K ?c [[0, 0], [1, 1]] ?w = (Inr (Some elem), w')"
    and a: "map_of (attributes (document w' ! elem)) ''id'' = Some ''pts0''"
    and o: "\<forall>j. j < length (document ?w) \<and> j \<noteq> elem \<longrightarrow> document w' ! j = document ?w ! j"
    and t: "elem = length (document ?w) \<and> length (document w') = Suc (length (document ?w))
            \<and> tagName (document w' ! elem) = ''line''"
    and x: "map_of (attributes (document w' ! elem)) ''x1'' = Some ''0''"
      "map_of (attributes (document w' ! elem)) ''y1'' = Some ''0''"
      "map_of (attributes (document w' ! elem)) ''x2'' = Some ''1''"
      "map_of (attributes (document w' ! elem)) ''y2'' = Some ''1''"
    by (auto simp: i q coord_def sample_numbers)
  from t doc have e1: "elem = 1" and l2: "length (document w') = 2"
    and t1: "tagName (document w' ! 1) = ''line''"
    by auto
  from o doc e1 have "document w' ! 0 = svg_root"
    by simp
  with l2 t1 have tags: "map tagName (document w') = [''svg'', ''line'']"
    by (cases "document w'"; cases "tl (document w')") (auto simp: svg_root_def)
  from r a x e1 tags
  have "\<exists>w'. SVGForm_line ?K ?c [[0, 0], [1, 1]] ?w = (Inr (Some 1), w')
          \<and> map tagName (document w') = [''svg'', ''line'']
          \<and> map_of (attributes (document w' ! 1)) ''id'' = Some ''pts0''
          \<and> map_of (attributes (document w' ! 1)) ''x1'' = Some ''0''
          \<and> map_of (attributes (document w' ! 1)) ''y1'' = Some ''0''
          \<and> map_of (attributes (document w' ! 1)) ''x2'' = Some ''1''
          \<and> map_of (attributes (document w' ! 1)) ''y2'' = Some ''1''"
    by auto
  with few many none g own i css new_form_simps(1) show ?thesis
    by simp
qed

text \<open>
  C8 as stated fails where the document already has an element under the context's
  id. After \<open>SVGForm.line(ctx, [[0,0],[1,1]])\<close> has created a \<open>line\<close> element, the call
  \<open>SVGForm.line(ctx, [[0,0],[1,1],[2,2]])\<close> with the same context finds that element by
  its id, returns it and sets \<open>points\<close> on it: the document still has the \<open>svg\<close> and
  the \<open>line\<close> element and no \<open>polyline\<close>. The id is \<open>pts0\<close>, a CSS identifier.
\<close>

theorem line_reuses_line_element:
  "2 < length [[0, 0], [1, 1], [2, 2::real]]
   \<and> fst (SVGForm_getID (ctx started_form) line_drawn) = ''pts0''
   \<and> css_identifier ''pts0''
   \<and> map tagName (document line_drawn) = [''svg'', ''line'']
   \<and> fst (SVGForm_line sample_collaborators (ctx started_form) [[0, 0], [1, 1], [2, 2]] line_drawn)
       = Inr (Some 1)
   \<and> map tagName (document (snd (SVGForm_line sample_collaborators (ctx started_form)
         [[0, 0], [1, 1], [2, 2]] line_drawn))) = [''svg'', ''line'']
   \<and> map_of (attributes (document (snd (SVGForm_line sample_collaborators (ctx started_form)
         [[0, 0], [1, 1], [2, 2]] line_drawn)) ! 1)) ''points'' = Some ''0,0 1,1 2,2 ''"
  by (simp add: line_drawn_eq eval_draw name_start_def name_char_def)

end
